theory Spec2Isabelle
  imports Complex_Main
begin

unbundle bit_operations_syntax

section \<open>Common data\<close>

text \<open>
  The Python code handles packets as tuples or lists of small integers and as byte
  strings; both are lists of natural numbers here. An exception is a value of
  \<open>exn\<close>; an operation returns its result together with the object as the
  exception (or the return) left it, so that a mutation made before a raise stays
  visible.
\<close>

type_synonym bytes = "nat list"

datatype exn =
    IndexError
  | KeyError
  | TypeError
  | ValueError
  | StructError
  | AttributeError
  | IpmiException string
  | NotImplementedError string

datatype 'a result = Return 'a | Raise exn | Waits

text \<open>Python's slice \<open>xs[a:b]\<close> for non-negative \<open>a\<close> and \<open>b\<close>.\<close>

definition slice :: "nat \<Rightarrow> nat \<Rightarrow> 'a list \<Rightarrow> 'a list" where
  "slice a b xs = take (b - a) (drop a xs)"

text \<open>\<open>xs[-n:]\<close> and \<open>xs[a:-n]\<close> for positive \<open>n\<close>.\<close>

definition last_n :: "nat \<Rightarrow> 'a list \<Rightarrow> 'a list" where
  "last_n n xs = drop (length xs - n) xs"

definition slice_to_end_minus :: "nat \<Rightarrow> nat \<Rightarrow> 'a list \<Rightarrow> 'a list" where
  "slice_to_end_minus a n xs = slice a (length xs - n) xs"

text \<open>
  \<open>struct.unpack("<I", s)\<close>: a little-endian unsigned 32-bit value; the call raises
  \<open>struct.error\<close> unless \<open>s\<close> has exactly four bytes. \<open>struct.pack("<I", n)\<close> is its
  inverse.
\<close>

fun unpack_le32 :: "bytes \<Rightarrow> nat option" where
  "unpack_le32 [a, b, c, d] = Some (a + 256 * b + 65536 * c + 16777216 * d)"
| "unpack_le32 _ = None"

definition pack_le32 :: "nat \<Rightarrow> bytes" where
  "pack_le32 n = [n mod 256, n div 256 mod 256, n div 65536 mod 256, n div 16777216 mod 256]"

section \<open>The SOL console (pyghmi/ipmi/console.py)\<close>

text \<open>
  The fields of \<open>Console\<close> that \<open>_got_sol_payload\<close> and \<open>_sendpendingoutput\<close> use.
  \<open>lastpayload_c\<close> is the console's own \<open>lastpayload\<close> attribute (absent until the
  first transmission). Two logs stand for the collaborators: \<open>printed\<close> holds every
  string handed to \<open>_print_data\<close> (which writes it to \<open>console_out\<close> or passes it to
  \<open>out_handler\<close>), oldest first, and \<open>sol_sent\<close> holds every call of
  \<open>ipmi_session.send_payload\<close> as (payload, payload type, retry).
\<close>

record console =
  remseq :: nat
  myseq :: nat
  lastsize :: nat
  sendbreak :: nat
  ackedcount :: nat
  ackedseq :: nat
  pendingoutput :: bytes
  awaitingack :: bool
  lasttextsize :: nat
  lastpayload_c :: "bytes option"
  printed :: "bytes list"
  sol_sent :: "(bytes \<times> nat \<times> bool) list"

definition print_data :: "bytes \<Rightarrow> console \<Rightarrow> console" where
  "print_data data c = c\<lparr>printed := printed c @ [data]\<rparr>"

definition session_send_payload :: "bytes \<Rightarrow> nat \<Rightarrow> bool \<Rightarrow> console \<Rightarrow> console" where
  "session_send_payload payload payload_type retry c =
     c\<lparr>sol_sent := sol_sent c @ [(payload, payload_type, retry)]\<rparr>"

definition sendpendingoutput :: "console \<Rightarrow> console" where
  "sendpendingoutput c =
     (let m = (myseq c + 1) AND 15;
          m = (if m = 0 then 1 else m);
          payload = [m, ackedseq c, ackedseq c, sendbreak c] @ pendingoutput c
      in session_send_payload payload 1 True
           (c\<lparr>myseq := m,
              lasttextsize := length (pendingoutput c),
              pendingoutput := [],
              awaitingack := True,
              lastpayload_c := Some payload\<rparr>))"

text \<open>
  The block under \<open>if newseq != 0\<close>: the remote end sent data. \<open>remdata\<close> is first
  \<open>payload[4:]\<close>; on a retry it is cut again at \<open>4 + lastsize\<close>.
\<close>

definition sol_remote_data :: "bytes \<Rightarrow> nat \<Rightarrow> console \<Rightarrow> console" where
  "sol_remote_data payload newseq c =
     (let remdatalen = (if 4 < length payload then length (drop 4 payload) else 0);
          remdata = (if 4 < length payload then drop 4 payload else []);
          remdata = (if newseq = remseq c
                     then (if lastsize c < remdatalen then drop (4 + lastsize c) remdata else [])
                     else remdata);
          c = (if newseq = remseq c then c else c\<lparr>remseq := newseq\<rparr>);
          c = c\<lparr>lastsize := remdatalen\<rparr>;
          c = (if remdata \<noteq> [] then print_data remdata c else c)
      in session_send_payload [0, remseq c, remdatalen, 0] 1 False c)"

text \<open>
  The second half: the BMC's view of our last transmission. The notices are the
  source's string literals, as bytes.
\<close>

definition sol_ack :: "nat \<Rightarrow> nat \<Rightarrow> nat \<Rightarrow> nat \<Rightarrow> nat \<Rightarrow> console \<Rightarrow> unit result \<times> console" where
  "sol_ack ackseq ackcount nacked poweredoff deactivated c =
     (if myseq c \<noteq> 0 \<and> ackseq = myseq c then
        (let c = c\<lparr>awaitingack := False\<rparr> in
         if 0 < nacked then
           (let c = (if poweredoff \<noteq> 0
                     then print_data (map of_char ''Remote system is powered down\<newline>'') c
                     else c)
            in if deactivated \<noteq> 0
               then (Return (),
                     print_data (map of_char ''Remote IPMI console disconnected\<newline>'') c)
               else (case lastpayload_c c of
                       None \<Rightarrow> (Raise AttributeError, c)
                     | Some lp \<Rightarrow>
                         (Return (),
                          sendpendingoutput
                            (c\<lparr>pendingoutput := drop (4 + ackcount) lp @ pendingoutput c\<rparr>))))
         else (Return (), c))
      else if awaitingack c then
        (case lastpayload_c c of
           None \<Rightarrow> (Raise AttributeError, c)
         | Some lp \<Rightarrow> (Return (), session_send_payload lp 1 True c))
      else (Return (), c))"

definition got_sol_payload :: "bytes \<Rightarrow> console \<Rightarrow> unit result \<times> console" where
  "got_sol_payload payload c =
     (if length payload < 4 then (Raise IndexError, c)
      else
        (let newseq = payload ! 0 AND 15;
             ackseq = payload ! 1 AND 15;
             ackcount = payload ! 2;
             nacked = payload ! 3 AND 64;
             poweredoff = payload ! 3 AND 32;
             deactivated = payload ! 3 AND 16;
             c = (if newseq \<noteq> 0 then sol_remote_data payload newseq c else c)
         in sol_ack ackseq ackcount nacked poweredoff deactivated c))"

text \<open>A console that has received three bytes under remote sequence number 1.\<close>

definition console_after_abc :: console where
  "console_after_abc =
     \<lparr>remseq = 1, myseq = 0, lastsize = 3, sendbreak = 0, ackedcount = 0, ackedseq = 0,
      pendingoutput = [], awaitingack = False, lasttextsize = 0, lastpayload_c = None,
      printed = [[97, 98, 99]], sol_sent = [([0, 1, 3, 0], 1, False)]\<rparr>"

section \<open>The session (pyghmi/ipmi/private/session.py)\<close>

subsection \<open>Data\<close>

text \<open>
  \<open>ipmiversion\<close> is the float 1.5 or 2.0. A response is one of the three dictionaries
  the code builds: \<open>{'error': msg}\<close>, \<open>{'success': True}\<close> and
  \<open>{'netfn', 'command', 'code', 'data'}\<close>. \<open>ipmicallback\<close> is a bound method of the
  session, a caller's function, or (in \<open>logout\<close> while cleaning up) \<open>False\<close>.
\<close>

datatype version = V1_5 | V2_0

datatype response =
    Rsp_error string
  | Rsp_success
  | Rsp_data nat nat nat bytes

datatype callback =
    Generic_callback
  | Got_channel_auth_cap
  | Got_session_challenge
  | Activated_session
  | Got_priv_level
  | User_callback nat
  | False_callback

datatype waiter = Sync_login | Logon_waiter nat

text \<open>
  What a session does to the outside, in order: a datagram handed to
  \<open>Session.socket.sendto\<close> (identified by the payload and the bare payload type it
  frames), a call of \<open>ipmicallback\<close> through \<open>call_with_optional_args\<close>, a call of
  a logon waiter, a call of \<open>sol_handler\<close>, a call of the callback given to \<open>logout\<close>.
  The body of a callback is not run here: it is the next operation on the session.
\<close>

datatype event =
    Sendto bytes "nat option"
  | Called callback response "nat option"
  | Logon nat response
  | Sol_handler bytes
  | Logout_callback nat response

text \<open>
  What the code takes from outside the repository's two files:
  \<open>Crypto.Hash.HMAC\<close> with SHA-1 (key, message), \<open>hashlib.md5\<close>, AES-CBC decryption
  (key, IV, data), \<open>os.urandom(16)\<close>, \<open>random.random()\<close>, \<open>_monotonic_time()\<close>, and
  the tables of \<open>pyghmi.ipmi.private.constants\<close>: \<open>rmcp_codes\<close> and the entries of
  \<open>payload_types\<close> the code reads. One value of each random source and of the clock
  serves one operation.
\<close>

record env =
  hmac_sha1 :: "bytes \<Rightarrow> bytes \<Rightarrow> bytes"
  md5 :: "bytes \<Rightarrow> bytes"
  aes_cbc_decrypt :: "bytes \<Rightarrow> bytes \<Rightarrow> bytes \<Rightarrow> bytes"
  urandom16 :: bytes
  random_random :: real
  monotonic_time :: real
  rmcp_codes :: "nat \<Rightarrow> string option"
  payload_type_ipmi :: nat
  payload_type_rmcpplusopenreq :: nat
  payload_type_rakp1 :: nat
  payload_type_rakp3 :: nat
  payload_type_values :: "nat list"

text \<open>
  The attributes of a \<open>Session\<close>. An attribute that \<open>hasattr\<close> tests
  (\<open>hasretried\<close>, \<open>remsequencenumber\<close>, \<open>remseqnumber\<close>) or that holds \<open>None\<close> is an
  option. \<open>integrityalgo\<close> and \<open>confalgo\<close> are only tested for truth. \<open>tabooseq\<close> is
  the dictionary keyed by (netfn, command, seqlun). The session's entries in the
  class dictionaries \<open>waiting_sessions\<close> and \<open>keepalive_sessions\<close>, which are keyed
  by the session object, are \<open>waiting_timeout\<close> and \<open>keepalive_timeout\<close> (\<open>None\<close>:
  no entry). \<open>trace\<close> is the log of events, oldest first.
\<close>

record session =
  incommand :: bool
  cleaningup :: bool
  lastpayload :: "bytes option"
  last_payload_type :: "nat option"
  userid :: bytes
  password :: bytes
  kg :: bytes
  nowait :: bool
  pendingpayloads :: "(bytes \<times> nat option \<times> bool) list"
  logonwaiters :: "waiter list"
  logontries :: int
  localsid :: nat
  privlevel :: nat
  confalgo :: bool
  aeskey :: "bytes option"
  integrityalgo :: bool
  k1 :: "bytes option"
  rmcptag :: nat
  ipmicallback :: "callback option"
  ipmicallbackargs :: "nat option"
  sessioncontext :: "string option"
  sequencenumber :: nat
  sessionid :: nat
  authtype :: nat
  ipmiversion :: version
  timeout :: real
  seqlun :: nat
  rqaddr :: nat
  logged :: nat
  sockaddr :: "nat option"
  tabooseq :: "nat \<times> nat \<times> nat \<Rightarrow> int option"
  ipmi15only :: nat
  sol_handler :: bool
  expectedcmd :: nat
  expectednetfn :: nat
  hasretried :: "nat option"
  remsequencenumber :: "nat option"
  remseqnumber :: "nat option"
  pendingsessionid :: nat
  allowedpriv :: nat
  randombytes :: bytes
  remoterandombytes :: bytes
  remoteguid :: bytes
  sik :: bytes
  k2 :: bytes
  lastresponse :: "response option"
  waiting_timeout :: "real option"
  keepalive_timeout :: "real option"
  trace :: "event list"

text \<open>Sequencing: a raise (or a suspension in the dispatcher) ends the operation.\<close>

definition bind_result ::
  "'a result \<times> 's \<Rightarrow> ('a \<Rightarrow> 's \<Rightarrow> 'b result \<times> 's) \<Rightarrow> 'b result \<times> 's" where
  "bind_result m f =
     (case m of
        (Return a, s) \<Rightarrow> f a s
      | (Raise e, s) \<Rightarrow> (Raise e, s)
      | (Waits, s) \<Rightarrow> (Waits, s))"

text \<open>The decimal digits of a number, for the \<open>%d\<close> of an error message.\<close>

fun show_nat :: "nat \<Rightarrow> string" where
  "show_nat n =
     (if n < 10 then [char_of (48 + n)]
      else show_nat (n div 10) @ [char_of (48 + n mod 10)])"

declare show_nat.simps [simp del]

subsection \<open>Building and sending a request\<close>

text \<open>\<open>_checksum\<close>: two's complement of the sum, in one byte.\<close>

definition checksum :: "bytes \<Rightarrow> nat" where
  "checksum data = ((sum_list data XOR 255) + 1) AND 255"

text \<open>
  The \<open>while\<close> loop of \<open>_make_ipmi_payload\<close>; the first argument is \<open>seqincrement\<close>.
  The guard reads the entry of \<open>(netfn, command, seqlun)\<close>; the body decrements the
  entry of \<open>(expectednetfn, command, seqlun)\<close>, a \<open>KeyError\<close> when there is none.
\<close>

fun taboo_loop :: "nat \<Rightarrow> nat \<Rightarrow> nat \<Rightarrow> session \<Rightarrow> unit result \<times> session" where
  "taboo_loop 0 netfn command s = (Return (), s)"
| "taboo_loop (Suc seqincrement) netfn command s =
     (case tabooseq s (netfn, command, seqlun s) of
        None \<Rightarrow> (Return (), s)
      | Some v \<Rightarrow>
          if v = 0 then (Return (), s)
          else
            (case tabooseq s (expectednetfn s, command, seqlun s) of
               None \<Rightarrow> (Raise KeyError, s)
             | Some w \<Rightarrow>
                 taboo_loop seqincrement netfn command
                   (s\<lparr>tabooseq := (tabooseq s)((expectednetfn s, command, seqlun s) \<mapsto> w - 1),
                      seqlun := (seqlun s + 4) AND 255\<rparr>)))"

definition make_ipmi_payload :: "nat \<Rightarrow> nat \<Rightarrow> bytes \<Rightarrow> session \<Rightarrow> bytes result \<times> session" where
  "make_ipmi_payload netfn command data s =
     bind_result (taboo_loop 7 netfn command (s\<lparr>expectedcmd := command, expectednetfn := netfn + 1\<rparr>))
       (\<lambda>_ s.
          let header = [32, push_bit 2 netfn];
              reqbody = [rqaddr s, seqlun s, command] @ data
          in (Return (header @ [checksum header] @ reqbody @ [checksum reqbody]), s))"

text \<open>
  \<open>_xmit_packet\<close>. The re-entrant \<open>Session.wait_for_rsp(timeout=0, callout=False)\<close>
  and the throttle on \<open>Session.pending\<close> belong to the dispatcher and are taken to
  find nothing to do; the choice among the addresses of \<open>getaddrinfo\<close> is one
  \<open>Sendto\<close>.
\<close>

definition xmit_packet ::
  "env \<Rightarrow> bytes \<Rightarrow> nat option \<Rightarrow> bool \<Rightarrow> real option \<Rightarrow> session \<Rightarrow> unit result \<times> session" where
  "xmit_packet E payload payload_type retry delay_xmit s =
     (let s = (if sequencenumber s \<noteq> 0 then s\<lparr>sequencenumber := sequencenumber s + 1\<rparr> else s);
          s = (if retry then s\<lparr>waiting_timeout := Some (timeout s + monotonic_time E)\<rparr> else s)
      in case delay_xmit of
           Some d \<Rightarrow>
             (if waiting_timeout s = None then (Raise KeyError, s)
              else (Return (), s\<lparr>waiting_timeout := Some (d + monotonic_time E)\<rparr>))
         | None \<Rightarrow> (Return (), s\<lparr>trace := trace s @ [Sendto payload payload_type]\<rparr>))"

text \<open>
  The first exception raised while \<open>send_payload\<close> assembles the message (lines
  410 to 486), if any. The bytes of the message are not modelled: they are a
  function of the payload, the payload type and the session's fields through the
  external hash and cipher. A failure of \<open>struct.pack\<close> on a value outside its range
  is not modelled either.
\<close>

definition payload_type_error :: "env \<Rightarrow> nat option \<Rightarrow> session \<Rightarrow> exn option" where
  "payload_type_error E payload_type s =
     (case payload_type of
        None \<Rightarrow>
          if integrityalgo s \<or> confalgo s \<or> ipmiversion s = V2_0 then Some TypeError else None
      | Some t \<Rightarrow>
          if ipmiversion s = V2_0 \<and> t = 2 then Some (NotImplementedError ''OEM Payloads'')
          else if ipmiversion s = V2_0 \<and> t \<notin> set (payload_type_values E)
            then Some (NotImplementedError (''Unrecognized payload type '' @ show_nat t))
          else None)"

definition frame_error :: "env \<Rightarrow> bytes option \<Rightarrow> nat option \<Rightarrow> session \<Rightarrow> exn option" where
  "frame_error E payload payload_type s =
     (case payload_type_error E payload_type s of
        Some e \<Rightarrow> Some e
      | None \<Rightarrow>
          if ipmiversion s = V1_5 \<and> authtype s \<noteq> 0 \<and> 16 < length (password s)
            then Some (IpmiException ''Password is too long for ipmi 1.5'')
          else if payload = None then Some TypeError
          else if ipmiversion s = V2_0 \<and> confalgo s \<and> aeskey s = None then Some TypeError
          else if ipmiversion s = V2_0 \<and> integrityalgo s \<and> k1 s = None then Some TypeError
          else None)"

definition send_payload ::
  "env \<Rightarrow> bytes option \<Rightarrow> nat option \<Rightarrow> bool \<Rightarrow> real option \<Rightarrow> session \<Rightarrow> unit result \<times> session" where
  "send_payload E payload payload_type retry delay_xmit s =
     (case (payload, lastpayload s) of
        (Some p, Some outstanding) \<Rightarrow>
          (Return (), s\<lparr>pendingpayloads := pendingpayloads s @ [(p, payload_type, retry)]\<rparr>)
      | _ \<Rightarrow>
          (let payload_type = (if payload_type = None then last_payload_type s else payload_type);
               payload = (if payload = None then lastpayload s else payload);
               s = (if retry then s\<lparr>lastpayload := payload, last_payload_type := payload_type\<rparr>
                    else s)
           in case frame_error E payload payload_type s of
                Some e \<Rightarrow> (Raise e, s)
              | None \<Rightarrow>
                  (case payload of
                     None \<Rightarrow> (Raise TypeError, s)
                   | Some p \<Rightarrow>
                       xmit_packet E p payload_type retry delay_xmit
                         (if keepalive_timeout s \<noteq> None
                          then s\<lparr>keepalive_timeout :=
                                   Some (monotonic_time E + 25 + random_random E * 4.9)\<rparr>
                          else s))))"

definition send_ipmi_net_payload ::
  "env \<Rightarrow> nat \<Rightarrow> nat \<Rightarrow> bytes \<Rightarrow> bool \<Rightarrow> real option \<Rightarrow> session \<Rightarrow> unit result \<times> session" where
  "send_ipmi_net_payload E netfn command data retry delay_xmit s =
     bind_result (make_ipmi_payload netfn command data s)
       (\<lambda>ipmipayload s.
          send_payload E (Some ipmipayload) (Some (payload_type_ipmi E)) retry delay_xmit s)"

text \<open>
  \<open>raw_command\<close> up to the point where a synchronous caller starts to wait. While
  \<open>incommand\<close> is set the call sits in \<open>Session.wait_for_rsp\<close>; so does a call
  without a callback once the request is out, until \<open>lastresponse\<close> is filled. Both
  are the result \<open>Waits\<close>.
\<close>

definition raw_command ::
  "env \<Rightarrow> nat \<Rightarrow> nat \<Rightarrow> bytes \<Rightarrow> bool \<Rightarrow> callback option \<Rightarrow> nat option \<Rightarrow> real option \<Rightarrow>
     session \<Rightarrow> unit result \<times> session" where
  "raw_command E netfn command data retry callback callback_args delay_xmit s =
     (if incommand s then (Waits, s)
      else
        (let s = s\<lparr>incommand := True, ipmicallbackargs := callback_args\<rparr>;
             s = (case callback of
                    None \<Rightarrow> s\<lparr>lastresponse := None, ipmicallback := Some Generic_callback\<rparr>
                  | Some cb \<Rightarrow> s\<lparr>ipmicallback := Some cb\<rparr>)
         in bind_result (send_ipmi_net_payload E netfn command data retry delay_xmit s)
              (\<lambda>_ s. if callback = None then (Waits, s) else (Return (), s))))"

text \<open>
  \<open>call_with_optional_args(self.ipmicallback, response, self.ipmicallbackargs)\<close>:
  calling \<open>None\<close> or \<open>False\<close> is a \<open>TypeError\<close>.
\<close>

definition call_with_optional_args ::
  "callback option \<Rightarrow> response \<Rightarrow> nat option \<Rightarrow> session \<Rightarrow> unit result \<times> session" where
  "call_with_optional_args callback response args s =
     (case callback of
        None \<Rightarrow> (Raise TypeError, s)
      | Some False_callback \<Rightarrow> (Raise TypeError, s)
      | Some cb \<Rightarrow> (Return (), s\<lparr>trace := trace s @ [Called cb response args]\<rparr>))"

text \<open>
  \<open>onlogon\<close> pops the waiters from the end of \<open>logonwaiters\<close> and calls each;
  \<open>_sync_login\<close> raises on an error response. The list given to \<open>run_waiters\<close> is in
  the order of the pops.
\<close>

fun run_waiters :: "response \<Rightarrow> waiter list \<Rightarrow> unit result \<times> waiter list \<times> event list" where
  "run_waiters r [] = (Return (), [], [])"
| "run_waiters r (Sync_login # ws) =
     (case r of
        Rsp_error m \<Rightarrow> (Raise (IpmiException m), ws, [])
      | _ \<Rightarrow> run_waiters r ws)"
| "run_waiters r (Logon_waiter n # ws) =
     (case run_waiters r ws of (x, rest, ev) \<Rightarrow> (x, rest, Logon n r # ev))"

definition onlogon :: "response \<Rightarrow> session \<Rightarrow> unit result \<times> session" where
  "onlogon parameter s =
     (case run_waiters parameter (rev (logonwaiters s)) of
        (x, rest, ev) \<Rightarrow> (x, s\<lparr>logonwaiters := rev rest, trace := trace s @ ev\<rparr>))"

subsection \<open>Login steps that send\<close>

text \<open>\<open>initialtimeout + (0.5 * random.random())\<close>.\<close>

definition fresh_timeout :: "env \<Rightarrow> real" where
  "fresh_timeout E = 0.5 + 0.5 * random_random E"

definition initsession :: "env \<Rightarrow> session \<Rightarrow> session" where
  "initsession E s =
     s\<lparr>localsid := 2017673555,
       privlevel := 4,
       confalgo := False,
       aeskey := None,
       integrityalgo := False,
       k1 := None,
       rmcptag := 1,
       ipmicallback := None,
       ipmicallbackargs := None,
       sessioncontext := None,
       sequencenumber := 0,
       sessionid := 0,
       authtype := 0,
       ipmiversion := V1_5,
       timeout := fresh_timeout E,
       seqlun := 0,
       rqaddr := 129,
       logged := 0,
       sockaddr := None,
       tabooseq := Map.empty,
       ipmi15only := 0,
       sol_handler := False\<rparr>"

definition get_channel_auth_cap :: "env \<Rightarrow> session \<Rightarrow> unit result \<times> session" where
  "get_channel_auth_cap E s =
     (let s = s\<lparr>ipmicallback := Some Got_channel_auth_cap\<rparr> in
      if ipmi15only s \<noteq> 0
      then send_ipmi_net_payload E 6 56 [14, privlevel s] True None s
      else send_ipmi_net_payload E 6 56 [142, privlevel s] True None s)"

definition relog :: "env \<Rightarrow> session \<Rightarrow> unit result \<times> session" where
  "relog E s =
     (let s = initsession E s;
          s = s\<lparr>logontries := logontries s - 1\<rparr>
      in get_channel_auth_cap E s)"

definition open_rmcpplus_request :: "env \<Rightarrow> session \<Rightarrow> unit result \<times> session" where
  "open_rmcpplus_request E s =
     (let s = s\<lparr>authtype := 6, localsid := localsid s + 1, rmcptag := rmcptag s + 1\<rparr>;
          data = [rmcptag s, 0, 0, 0] @ pack_le32 (localsid s) @
                 [0, 0, 0, 8, 1, 0, 0, 0,
                  1, 0, 0, 8, 1, 0, 0, 0,
                  2, 0, 0, 8, 1, 0, 0, 0];
          s = s\<lparr>sessioncontext := Some ''OPENSESSION''\<rparr>
      in send_payload E (Some data) (Some (payload_type_rmcpplusopenreq E)) True None s)"

definition req_priv_level :: "env \<Rightarrow> session \<Rightarrow> unit result \<times> session" where
  "req_priv_level E s =
     send_ipmi_net_payload E 6 59 [privlevel s] True None
       (s\<lparr>ipmicallback := Some Got_priv_level\<rparr>)"

definition send_rakp1 :: "env \<Rightarrow> session \<Rightarrow> unit result \<times> session" where
  "send_rakp1 E s =
     (let s = s\<lparr>rmcptag := rmcptag s + 1, randombytes := urandom16 E\<rparr>;
          userlen = length (userid s);
          payload = [rmcptag s, 0, 0, 0] @ pack_le32 (pendingsessionid s) @ randombytes s @
                    [privlevel s, 0, 0] @ [userlen] @ userid s;
          s = s\<lparr>sessioncontext := Some ''EXPECTINGRAKP2''\<rparr>
      in send_payload E (Some payload) (Some (payload_type_rakp1 E)) True None s)"

definition send_rakp3 :: "env \<Rightarrow> session \<Rightarrow> unit result \<times> session" where
  "send_rakp3 E s =
     (let s = s\<lparr>rmcptag := rmcptag s + 1\<rparr>;
          payload = [rmcptag s, 0, 0, 0] @ pack_le32 (pendingsessionid s);
          hmacdata = remoterandombytes s @ pack_le32 (localsid s) @
                     [privlevel s, length (userid s)] @ userid s;
          authcode = hmac_sha1 E (password s) hmacdata
      in send_payload E (Some (payload @ authcode)) (Some (payload_type_rakp3 E)) True None s)"

subsection \<open>Parsing a reply\<close>

text \<open>
  \<open>_parse_ipmi_payload\<close>. The three comparisons of the guard are evaluated left to
  right, each indexing the payload only when the ones before it matched.
\<close>

definition reply_mismatch :: "bytes \<Rightarrow> session \<Rightarrow> bool result" where
  "reply_mismatch payload s =
     (if length payload \<le> 4 then Raise IndexError
      else if payload ! 4 \<noteq> seqlun s then Return True
      else if drop_bit 2 (payload ! 1) \<noteq> expectednetfn s then Return True
      else if length payload \<le> 5 then Raise IndexError
      else Return (payload ! 5 \<noteq> expectedcmd s))"

text \<open>The statements after the guard, up to the response dictionary.\<close>

definition complete_request :: "session \<Rightarrow> session" where
  "complete_request s =
     (let s = (case hasretried s of
                 None \<Rightarrow> s
               | Some h \<Rightarrow>
                   if h \<noteq> 0
                   then s\<lparr>hasretried := Some 0,
                          tabooseq := (tabooseq s)
                            ((expectednetfn s, expectedcmd s, seqlun s) \<mapsto> 16)\<rparr>
                   else s)
      in s\<lparr>expectednetfn := 511,
           expectedcmd := 511,
           seqlun := (seqlun s + 4) AND 255,
           waiting_timeout := None,
           lastpayload := None,
           last_payload_type := None\<rparr>)"

text \<open>
  The response: after \<open>del payload[0:5]\<close> and \<open>del payload[-1]\<close> the command and the
  code are the first two bytes left; each read can raise.
\<close>

definition build_response :: "bytes \<Rightarrow> response result" where
  "build_response payload =
     (let rest = butlast (drop 5 payload) in
      if length rest < 2 then Raise IndexError
      else Return (Rsp_data (drop_bit 2 (payload ! 1)) (rest ! 0) (rest ! 1) (drop 2 rest)))"

definition send_next_pending :: "env \<Rightarrow> session \<Rightarrow> unit result \<times> session" where
  "send_next_pending E s =
     (case pendingpayloads s of
        [] \<Rightarrow> (Return (), s)
      | (nextpayload, nextpayloadtype, retry) # rest \<Rightarrow>
          send_payload E (Some nextpayload) nextpayloadtype retry None
            (s\<lparr>pendingpayloads := rest\<rparr>))"

definition parse_ipmi_payload :: "env \<Rightarrow> bytes \<Rightarrow> session \<Rightarrow> int option result \<times> session" where
  "parse_ipmi_payload E payload s =
     (case reply_mismatch payload s of
        Raise e \<Rightarrow> (Raise e, s)
      | Waits \<Rightarrow> (Waits, s)
      | Return True \<Rightarrow> (Return (Some (- 1)), s)
      | Return False \<Rightarrow>
          (let s = complete_request s in
           case build_response payload of
             Raise e \<Rightarrow> (Raise e, s)
           | Waits \<Rightarrow> (Waits, s)
           | Return response \<Rightarrow>
               bind_result (send_next_pending E (s\<lparr>timeout := fresh_timeout E\<rparr>))
                 (\<lambda>_ s.
                    bind_result
                      (call_with_optional_args (ipmicallback s) response (ipmicallbackargs s)
                         (s\<lparr>incommand := False\<rparr>))
                      (\<lambda>_ s. (Return None, s)))))"

subsection \<open>The RMCP+ handshake replies\<close>

definition rmcp_error_string :: "env \<Rightarrow> nat \<Rightarrow> string" where
  "rmcp_error_string E code =
     (case rmcp_codes E code of
        Some msg \<Rightarrow> msg
      | None \<Rightarrow> ''Unrecognized RMCP code '' @ show_nat code)"

definition got_rmcp_response :: "env \<Rightarrow> bytes \<Rightarrow> session \<Rightarrow> int option result \<times> session" where
  "got_rmcp_response E data s =
     (if sessioncontext s = None \<or> sessioncontext s = Some [] \<or>
         sessioncontext s = Some ''Established''
      then (Return (Some (- 9)), s)
      else if length data < 1 then (Raise IndexError, s)
      else if data ! 0 \<noteq> rmcptag s then (Return (Some (- 9)), s)
      else if length data < 2 then (Raise IndexError, s)
      else if data ! 1 \<noteq> 0 then
        bind_result (onlogon (Rsp_error (rmcp_error_string E (data ! 1))) s)
          (\<lambda>_ s. (Return (Some (- 9)), s))
      else if length data < 3 then (Raise IndexError, s)
      else
        (let s = s\<lparr>allowedpriv := data ! 2\<rparr> in
         case unpack_le32 (slice 4 8 data) of
           None \<Rightarrow> (Raise StructError, s)
         | Some sid \<Rightarrow>
             if localsid s \<noteq> sid then (Return (Some (- 9)), s)
             else
               (case unpack_le32 (slice 8 12 data) of
                  None \<Rightarrow> (Raise StructError, s)
                | Some pending \<Rightarrow>
                    bind_result
                      (send_rakp1 E (s\<lparr>pendingsessionid := pending, lastpayload := None\<rparr>))
                      (\<lambda>_ s. (Return None, s)))))"

definition got_rakp2 :: "env \<Rightarrow> bytes \<Rightarrow> session \<Rightarrow> int option result \<times> session" where
  "got_rakp2 E data s =
     (if \<not> (sessioncontext s = Some ''EXPECTINGRAKP2'' \<or>
            sessioncontext s = Some ''EXPECTINGRAKP4'')
      then (Return (Some (- 9)), s)
      else if length data < 1 then (Raise IndexError, s)
      else if data ! 0 \<noteq> rmcptag s then (Return (Some (- 9)), s)
      else if length data < 2 then (Raise IndexError, s)
      else if data ! 1 \<noteq> 0 then
        (if data ! 1 = 2 then (Return None, s)
         else
           bind_result (onlogon (Rsp_error (rmcp_error_string E (data ! 1) @ '' in RAKP2'')) s)
             (\<lambda>_ s. (Return (Some (- 9)), s)))
      else
        (case unpack_le32 (slice 4 8 data) of
           None \<Rightarrow> (Raise StructError, s)
         | Some sid \<Rightarrow>
             if sid \<noteq> localsid s then (Return (Some (- 9)), s)
             else if length (slice 8 24 data) \<noteq> 16 then (Raise StructError, s)
             else
               (let s = s\<lparr>remoterandombytes := slice 8 24 data\<rparr> in
                if length (slice 24 40 data) \<noteq> 16 then (Raise StructError, s)
                else
                  (let s = s\<lparr>remoteguid := slice 24 40 data\<rparr>;
                       userlen = length (userid s);
                       hmacdata = pack_le32 sid @ pack_le32 (pendingsessionid s) @
                                  randombytes s @ remoterandombytes s @ remoteguid s @
                                  [privlevel s, userlen] @ userid s;
                       expectedhash = hmac_sha1 E (password s) hmacdata;
                       givenhash = drop 40 data
                   in if givenhash \<noteq> expectedhash then
                        bind_result
                          (onlogon (Rsp_error ''Incorrect password provided'')
                             (s\<lparr>sessioncontext := Some ''FAILED''\<rparr>))
                          (\<lambda>_ s. (Return (Some (- 9)), s))
                      else
                        (let newsik = hmac_sha1 E (kg s)
                                        (randombytes s @ remoterandombytes s @
                                         [privlevel s, userlen] @ userid s);
                             newk2 = hmac_sha1 E newsik (replicate 20 2);
                             s = s\<lparr>sik := newsik,
                                    k1 := Some (hmac_sha1 E newsik (replicate 20 1)),
                                    k2 := newk2,
                                    aeskey := Some (take 16 newk2),
                                    sessioncontext := Some ''EXPECTINGRAKP4'',
                                    lastpayload := None\<rparr>
                         in bind_result (send_rakp3 E s) (\<lambda>_ s. (Return None, s)))))))"

text \<open>
  In \<open>_got_rakp4\<close> a status of 2 with tries left calls \<open>_relog\<close> and then goes on to
  report the error, as the source does (there is no \<open>return\<close> after \<open>_relog\<close>).
\<close>

definition got_rakp4 :: "env \<Rightarrow> bytes \<Rightarrow> session \<Rightarrow> int option result \<times> session" where
  "got_rakp4 E data s =
     (if sessioncontext s \<noteq> Some ''EXPECTINGRAKP4'' then (Return (Some (- 9)), s)
      else if length data < 1 then (Raise IndexError, s)
      else if data ! 0 \<noteq> rmcptag s then (Return (Some (- 9)), s)
      else if length data < 2 then (Raise IndexError, s)
      else if data ! 1 \<noteq> 0 then
        bind_result
          (if data ! 1 = 2 \<and> logontries s \<noteq> 0 then relog E s else (Return (), s))
          (\<lambda>_ s.
             if data ! 1 = 15 \<and> logontries s \<noteq> 0 then (Return None, s)
             else
               bind_result
                 (onlogon (Rsp_error (rmcp_error_string E (data ! 1) @ '' reported in RAKP4'')) s)
                 (\<lambda>_ s. (Return (Some (- 9)), s)))
      else
        (case unpack_le32 (slice 4 8 data) of
           None \<Rightarrow> (Raise StructError, s)
         | Some sid \<Rightarrow>
             if sid \<noteq> localsid s then (Return (Some (- 9)), s)
             else
               (let hmacdata = randombytes s @ pack_le32 (pendingsessionid s) @ remoteguid s;
                    expectedauthcode = take 12 (hmac_sha1 E (sik s) hmacdata);
                    authcode = drop 8 data
                in if authcode \<noteq> expectedauthcode then
                     bind_result
                       (onlogon (Rsp_error ''Invalid RAKP4 integrity code (wrong Kg?)'') s)
                       (\<lambda>_ s. (Return None, s))
                   else
                     bind_result
                       (req_priv_level E
                          (s\<lparr>sessionid := pendingsessionid s,
                             integrityalgo := True,
                             confalgo := True,
                             sequencenumber := 1,
                             sessioncontext := Some ''ESTABLISHED'',
                             lastpayload := None\<rparr>))
                       (\<lambda>_ s. (Return None, s)))))"

subsection \<open>Inbound datagrams\<close>

text \<open>
  The payload of an RMCP+ datagram that passed the checks: bytes 16 to 16 + psize,
  decrypted and stripped of its pad when the confidentiality bit is set. AES needs
  a key, a 16-byte IV and a whole number of blocks.
\<close>

definition ipmi2_payload :: "env \<Rightarrow> bytes \<Rightarrow> session \<Rightarrow> bytes result" where
  "ipmi2_payload E rawdata s =
     (if length rawdata < 16 then Raise IndexError
      else
        (let psize = rawdata ! 14 + push_bit 8 (rawdata ! 15);
             payload = slice 16 (16 + psize) rawdata
         in if rawdata ! 5 AND 128 = 0 then Return payload
            else
              (case aeskey s of
                 None \<Rightarrow> Raise TypeError
               | Some key \<Rightarrow>
                   if length (slice 16 32 rawdata) \<noteq> 16 then Raise ValueError
                   else if length (drop 16 payload) mod 16 \<noteq> 0 then Raise ValueError
                   else
                     (let decrypted = aes_cbc_decrypt E key (slice 16 32 rawdata) (drop 16 payload)
                      in if decrypted = [] then Raise IndexError
                         else Return (take (length decrypted - (last decrypted + 1)) decrypted)))))"

text \<open>What is done with a SOL payload (\<open>ptype == 1\<close>).\<close>

definition got_sol :: "env \<Rightarrow> bytes \<Rightarrow> session \<Rightarrow> int option result \<times> session" where
  "got_sol E payload s =
     bind_result
       (if last_payload_type s = Some 1
        then send_next_pending E
               (s\<lparr>lastpayload := None, last_payload_type := None, waiting_timeout := None\<rparr>)
        else (Return (), s))
       (\<lambda>_ s.
          if sol_handler s then (Return None, s\<lparr>trace := trace s @ [Sol_handler payload]\<rparr>)
          else (Return None, s))"

text \<open>The stored \<open>remseqnumber\<close> rejects a lower number unless it is \<open>0xffffffff\<close>.\<close>

definition remseqnumber_too_low :: "nat \<Rightarrow> session \<Rightarrow> bool" where
  "remseqnumber_too_low new s =
     (case remseqnumber s of
        None \<Rightarrow> False
      | Some old \<Rightarrow> new < old \<and> old \<noteq> 4294967295)"

definition handle_ipmi2_packet :: "env \<Rightarrow> bytes \<Rightarrow> session \<Rightarrow> int option result \<times> session" where
  "handle_ipmi2_packet E rawdata s =
     (if length rawdata \<le> 5 then (Raise IndexError, s)
      else
        (let ptype = rawdata ! 5 AND 63 in
         if ptype = 17 then got_rmcp_response E (drop 16 rawdata) s
         else if ptype = 19 then got_rakp2 E (drop 16 rawdata) s
         else if ptype = 21 then got_rakp4 E (drop 16 rawdata) s
         else if ptype = 0 \<or> ptype = 1 then
           (if rawdata ! 5 AND 64 = 0 then (Return None, s)
            else
              (case k1 s of
                 None \<Rightarrow> (Raise TypeError, s)
               | Some key \<Rightarrow>
                   if last_n 12 rawdata \<noteq>
                      take 12 (hmac_sha1 E key (slice_to_end_minus 4 12 rawdata))
                   then (Return None, s)
                   else
                     (case unpack_le32 (slice 6 10 rawdata) of
                        None \<Rightarrow> (Raise StructError, s)
                      | Some sid \<Rightarrow>
                          if sid \<noteq> localsid s then (Return None, s)
                          else
                            (case unpack_le32 (slice 10 14 rawdata) of
                               None \<Rightarrow> (Raise StructError, s)
                             | Some new \<Rightarrow>
                                 if remseqnumber_too_low new s then (Return None, s)
                                 else
                                   (let s = s\<lparr>remseqnumber := Some new\<rparr> in
                                    case ipmi2_payload E rawdata s of
                                      Raise e \<Rightarrow> (Raise e, s)
                                    | Waits \<Rightarrow> (Waits, s)
                                    | Return payload \<Rightarrow>
                                        if ptype = 0
                                        then bind_result (parse_ipmi_payload E payload s)
                                               (\<lambda>_ s. (Return None, s))
                                        else got_sol E payload s)))))
         else (Return None, s)))"

text \<open>
  \<open>_ipmi15authcode(payload, checkremotecode=True)\<close>: the MD5 over the padded
  password, the session id, the payload, the remote sequence number and the padded
  password again.
\<close>

definition ipmi15authcode_remote :: "env \<Rightarrow> bytes \<Rightarrow> nat \<Rightarrow> session \<Rightarrow> bytes result" where
  "ipmi15authcode_remote E payload seqno s =
     (if authtype s = 0 then Return []
      else if 16 < length (password s) then Raise (IpmiException ''Password is too long for ipmi 1.5'')
      else
        (let passdata = password s @ replicate (16 - length (password s)) 0
         in Return (md5 E (passdata @ pack_le32 (sessionid s) @ payload @ pack_le32 seqno @ passdata))))"

text \<open>The IPMI 1.5 branch of \<open>_handle_ipmi_packet\<close>, after the sequence number is stored.\<close>

definition ipmi15_checks :: "env \<Rightarrow> bytes \<Rightarrow> nat \<Rightarrow> session \<Rightarrow> int option result \<times> session" where
  "ipmi15_checks E data seqno s =
     (if data ! 4 \<noteq> authtype s then (Return (Some (- 2)), s)
      else
        (case unpack_le32 (slice 9 13 data) of
           None \<Rightarrow> (Raise StructError, s)
         | Some remsessid \<Rightarrow>
             if remsessid \<noteq> sessionid s then (Return (Some (- 1)), s)
             else
               (let authcode = (if data ! 4 = 2 then slice 13 29 data else []);
                    rsp = (if data ! 4 = 2 then take 13 data @ drop 29 data else data)
                in if length rsp \<le> 13 then (Raise IndexError, s)
                   else
                     (let payload = slice 14 (14 + rsp ! 13) rsp in
                      if authcode \<noteq> [] then
                        (case ipmi15authcode_remote E payload seqno s of
                           Raise e \<Rightarrow> (Raise e, s)
                         | Waits \<Rightarrow> (Waits, s)
                         | Return expectedauthcode \<Rightarrow>
                             if expectedauthcode \<noteq> authcode then (Return None, s)
                             else bind_result (parse_ipmi_payload E payload s)
                                    (\<lambda>_ s. (Return None, s)))
                      else bind_result (parse_ipmi_payload E payload s)
                             (\<lambda>_ s. (Return None, s))))))"

definition handle_ipmi_packet ::
  "env \<Rightarrow> bytes \<Rightarrow> nat option \<Rightarrow> session \<Rightarrow> int option result \<times> session" where
  "handle_ipmi_packet E data peer s =
     (if sockaddr s \<noteq> None \<and> peer \<noteq> None \<and> sockaddr s \<noteq> peer then (Return None, s)
      else
        (let s = (if sockaddr s = None \<and> peer \<noteq> None then s\<lparr>sockaddr := peer\<rparr> else s) in
         if length data \<le> 4 then (Raise IndexError, s)
         else if data ! 4 = 0 \<or> data ! 4 = 2 then
           (case unpack_le32 (slice 5 9 data) of
              None \<Rightarrow> (Raise StructError, s)
            | Some new \<Rightarrow>
                if (case remsequencenumber s of None \<Rightarrow> False | Some old \<Rightarrow> new < old)
                then (Return (Some (- 5)), s)
                else ipmi15_checks E data new (s\<lparr>remsequencenumber := Some new\<rparr>))
         else if data ! 4 = 6 then
           bind_result (handle_ipmi2_packet E data s) (\<lambda>_ s. (Return None, s))
         else (Return None, s)))"

subsection \<open>Timers, keepalive and logout\<close>

text \<open>
  \<open>_timedout\<close>, called by the dispatcher after it has removed the session from
  \<open>waiting_sessions\<close>. \<open>not self.lastpayload\<close> holds for \<open>None\<close> and for an empty
  payload.
\<close>

definition timedout :: "env \<Rightarrow> session \<Rightarrow> unit result \<times> session" where
  "timedout E s =
     (if lastpayload s = None \<or> lastpayload s = Some [] then (Return (), s)
      else
        (let s = s\<lparr>nowait := True, timeout := timeout s + 1\<rparr> in
         if 5 < timeout s then
           bind_result
             (call_with_optional_args (ipmicallback s) (Rsp_error ''timeout'') (ipmicallbackargs s) s)
             (\<lambda>_ s. (Return (), s\<lparr>incommand := False, nowait := False\<rparr>))
         else if sessioncontext s = Some ''FAILED'' then (Return (), s\<lparr>nowait := False\<rparr>)
         else
           bind_result
             (if sessioncontext s = Some ''OPENSESSION'' then open_rmcpplus_request E s
              else if sessioncontext s = Some ''EXPECTINGRAKP2'' \<or>
                      sessioncontext s = Some ''EXPECTINGRAKP4''
                then relog E s
              else send_payload E None None True None (s\<lparr>hasretried := Some 1\<rparr>))
             (\<lambda>_ s. (Return (), s\<lparr>nowait := False\<rparr>))))"


definition keepalive :: "env \<Rightarrow> session \<Rightarrow> unit result \<times> session" where
  "keepalive E s =
     (if incommand s then (Return (), s)
      else raw_command E 6 1 [] True None None None s)"

text \<open>
  The body of the keepalive loop of \<open>wait_for_rsp\<close> for one session of
  \<open>keepalive_sessions\<close>: past its deadline, the entry is rewritten and \<open>_keepalive\<close>
  runs.
\<close>

definition wait_for_rsp_keepalive :: "env \<Rightarrow> session \<Rightarrow> unit result \<times> session" where
  "wait_for_rsp_keepalive E s =
     (case keepalive_timeout s of
        None \<Rightarrow> (Return (), s)
      | Some t \<Rightarrow>
          if t < monotonic_time E
          then keepalive E (s\<lparr>keepalive_timeout := Some (25 + random_random E * 4.9)\<rparr>)
          else (Return (), s))"

text \<open>
  \<open>logout\<close>; the callback is the caller's function, by its number. The session id
  goes out in the machine's byte order, taken here as little-endian. A call without
  a callback on a logged-in session waits inside \<open>raw_command\<close>.
\<close>

definition logout :: "env \<Rightarrow> nat option \<Rightarrow> nat option \<Rightarrow> session \<Rightarrow> response option result \<times> session" where
  "logout E callback callback_args s =
     (if logged s = 0 then
        (case callback of
           None \<Rightarrow> (Return (Some Rsp_success), s)
         | Some f \<Rightarrow> (Return None, s\<lparr>trace := trace s @ [Logout_callback f Rsp_success]\<rparr>))
      else
        (let cb = (if cleaningup s then Some False_callback else map_option User_callback callback);
             s = (if cleaningup s then s\<lparr>nowait := True\<rparr> else s)
         in bind_result (raw_command E 6 60 (pack_le32 (sessionid s)) False cb callback_args None s)
              (\<lambda>_ s.
                 let s = s\<lparr>logged := 0, nowait := False\<rparr> in
                 case cb of
                   Some (User_callback f) \<Rightarrow>
                     (Return None, s\<lparr>trace := trace s @ [Logout_callback f Rsp_success]\<rparr>)
                 | _ \<Rightarrow> (Return (Some Rsp_success), s))))"

subsection \<open>Sample values\<close>

text \<open>
  Stand-ins for the external functions, used only to run the model on concrete
  inputs; every general theorem below holds for all environments. The payload type
  numbers are those of the IPMI specification.
\<close>

definition sample_hmac :: "bytes \<Rightarrow> bytes \<Rightarrow> bytes" where
  "sample_hmac key msg = take 20 (key @ msg @ replicate 20 0)"

definition sample_md5 :: "bytes \<Rightarrow> bytes" where
  "sample_md5 msg = take 16 (msg @ replicate 16 0)"

definition sample_aes :: "bytes \<Rightarrow> bytes \<Rightarrow> bytes \<Rightarrow> bytes" where
  "sample_aes key iv data = data"

definition no_rmcp_codes :: "nat \<Rightarrow> string option" where
  "no_rmcp_codes code = None"

definition sample_env :: env where
  "sample_env =
     \<lparr>hmac_sha1 = sample_hmac, md5 = sample_md5, aes_cbc_decrypt = sample_aes,
      urandom16 = [7, 7, 7, 7, 7, 7, 7, 7, 7, 7, 7, 7, 7, 7, 7, 7], random_random = 0.5, monotonic_time = 100,
      rmcp_codes = no_rmcp_codes,
      payload_type_ipmi = 0, payload_type_rmcpplusopenreq = 16,
      payload_type_rakp1 = 18, payload_type_rakp3 = 20,
      payload_type_values = [0, 1, 16, 17, 18, 19, 20, 21]\<rparr>"

text \<open>
  An idle IPMI 1.5 session without authentication: the state after \<open>_initsession\<close>
  with the attributes set elsewhere at harmless values, a caller's callback
  installed and the peer address known.
\<close>

definition idle_session :: session where
  "idle_session =
     \<lparr>incommand = False, cleaningup = False, lastpayload = None, last_payload_type = None,
      userid = [97], password = [98], kg = [98], nowait = False, pendingpayloads = [],
      logonwaiters = [], logontries = 5, localsid = 2017673555, privlevel = 4,
      confalgo = False, aeskey = None, integrityalgo = False, k1 = None, rmcptag = 1,
      ipmicallback = Some (User_callback 0), ipmicallbackargs = None, sessioncontext = None,
      sequencenumber = 0, sessionid = 0, authtype = 0, ipmiversion = V1_5,
      timeout = 0.75, seqlun = 0, rqaddr = 129, logged = 0, sockaddr = Some 1,
      tabooseq = Map.empty, ipmi15only = 0, sol_handler = False, expectedcmd = 511,
      expectednetfn = 511, hasretried = None, remsequencenumber = None, remseqnumber = None,
      pendingsessionid = 0, allowedpriv = 0, randombytes = [], remoterandombytes = [],
      remoteguid = [], sik = [], k2 = [], lastresponse = None, waiting_timeout = None,
      keepalive_timeout = None, trace = []\<rparr>"

text \<open>
  The same session with a Get Device ID request (netfn 6, command 1) outstanding
  and its retry timer advanced to 4.6 seconds; the same in login state \<open>FAILED\<close>;
  and a logged-in idle session whose keepalive deadline has passed.
\<close>

definition stalled_session :: session where
  "stalled_session =
     idle_session\<lparr>incommand := True,
                  lastpayload := Some [32, 24, 200, 129, 0, 1, 126],
                  last_payload_type := Some 0,
                  timeout := 4.6,
                  expectedcmd := 1,
                  expectednetfn := 7\<rparr>"


definition due_session :: session where
  "due_session = idle_session\<lparr>logged := 1, keepalive_timeout := Some 50\<rparr>"

text \<open>The stalled session after its request has been retransmitted once.\<close>

definition retried_session :: session where
  "retried_session = stalled_session\<lparr>hasretried := Some 1\<rparr>"

text \<open>The stalled session with one more request waiting in the queue.\<close>

definition queued_session :: session where
  "queued_session =
     stalled_session\<lparr>pendingpayloads := [([32, 0, 224, 129, 0, 2, 125], Some 0, True)]\<rparr>"

text \<open>
  An established RMCP+ session (integrity and confidentiality on) waiting for the
  reply to a Get Device ID request, and datagrams for it: a well-formed reply with
  a given sequence number field, whose twelve trailing bytes are what \<open>sample_hmac\<close>
  yields under the session's K1, and the same reply with a wrong trailing code.
\<close>

definition established_session :: session where
  "established_session =
     idle_session\<lparr>incommand := True,
                  lastpayload := Some [32, 24, 200, 129, 0, 1, 126],
                  last_payload_type := Some 0,
                  localsid := 2017673556,
                  confalgo := True,
                  aeskey := Some [3, 3, 3, 3, 3, 3, 3, 3, 3, 3, 3, 3, 3, 3, 3, 3],
                  integrityalgo := True,
                  k1 := Some [9, 9, 9, 9, 9, 9, 9, 9, 9, 9, 9, 9, 9, 9, 9, 9, 9, 9, 9, 9],
                  rmcptag := 4,
                  sessioncontext := Some ''ESTABLISHED'',
                  sequencenumber := 3,
                  sessionid := 16909060,
                  authtype := 6,
                  ipmiversion := V2_0,
                  logged := 1,
                  expectedcmd := 1,
                  expectednetfn := 7,
                  remseqnumber := Some 7,
                  waiting_timeout := Some 100.75,
                  keepalive_timeout := Some 120\<rparr>"

definition device_id_reply :: "bytes \<Rightarrow> bytes" where
  "device_id_reply seqbytes =
     [6, 0, 255, 7, 6, 64, 84, 65, 67, 120] @ seqbytes @
     [8, 0, 129, 28, 99, 32, 0, 1, 0, 223, 255, 255, 2, 7,
      9, 9, 9, 9, 9, 9, 9, 9, 9, 9, 9, 9]"


text \<open>
  An RMCP+ open-session response addressed to that session: payload type 0x11,
  sequence number field 0, the session's current \<open>rmcptag\<close> and \<open>localsid\<close>,
  status 0.
\<close>

definition stale_open_session_response :: bytes where
  "stale_open_session_response =
     [6, 0, 255, 7, 6, 17, 0, 0, 0, 0, 0, 0, 0, 0, 36, 0,
      4, 0, 4, 0, 84, 65, 67, 120, 4, 3, 2, 1,
      0, 0, 0, 8, 1, 0, 0, 0,
      1, 0, 0, 8, 1, 0, 0, 0,
      2, 0, 0, 8, 1, 0, 0, 0]"

text \<open>
  An IPMI 1.5 session with MD5 authentication that has seen remote sequence number
  3, and a datagram for it with sequence number 5 whose authtype byte is 0.
\<close>

definition md5_session :: session where
  "md5_session =
     idle_session\<lparr>sessionid := 16909060, authtype := 2, remsequencenumber := Some 3\<rparr>"

definition wrong_authtype_datagram :: bytes where
  "wrong_authtype_datagram =
     [6, 0, 255, 7, 0, 5, 0, 0, 0, 4, 3, 2, 1, 8, 129, 28, 99, 32, 0, 1, 0, 223]"

subsection \<open>Relations between the states before and after an operation\<close>

text \<open>
  The two stored remote sequence numbers (\<open>remsequencenumber\<close> of the IPMI 1.5
  path, \<open>remseqnumber\<close> of the RMCP+ path) are the same in both states.
\<close>

definition same_remote_seq :: "session \<Rightarrow> session \<Rightarrow> bool" where
  "same_remote_seq s0 s \<longleftrightarrow>
     remsequencenumber s = remsequencenumber s0 \<and> remseqnumber s = remseqnumber s0"

text \<open>
  Every entry of the pending queue of the first state is still queued, in place, in
  the second: nothing was taken from the queue.
\<close>

definition queue_kept :: "session \<Rightarrow> session \<Rightarrow> bool" where
  "queue_kept s0 s \<longleftrightarrow>
     take (length (pendingpayloads s0)) (pendingpayloads s) = pendingpayloads s0"

section \<open>Theorems\<close>

subsection \<open>SOL retransmits\<close>

text \<open>
  What a retransmit (a packet whose \<open>newseq\<close> equals the stored \<open>remseq\<close>) with data
  hands to \<open>_print_data\<close>: the data with its first \<open>4 + lastsize\<close> bytes removed,
  that is the packet from byte \<open>8 + lastsize\<close> on, and nothing when that is empty or
  when the data is no longer than \<open>lastsize\<close>.
\<close>

lemma sol_retransmit_printed:
  assumes "4 < length payload" and "newseq = remseq c"
  shows "printed (sol_remote_data payload newseq c) =
           printed c @ (if lastsize c < length payload - 4 \<and> drop (8 + lastsize c) payload \<noteq> []
                        then [drop (8 + lastsize c) payload] else [])"
  using assms
  by (simp add: sol_remote_data_def print_data_def session_send_payload_def Let_def)

text \<open>
  C1. The claim: a retransmit of the same remote sequence number whose data is
  longer than \<open>lastsize\<close> delivers exactly the bytes beyond the first \<open>lastsize\<close>.
  The code at a concrete input: the console has received "abc" under sequence
  number 1; the retransmit carries "abcde". The bytes beyond the first three are
  "de", but \<open>_got_sol_payload\<close> prints nothing more: it cuts \<open>remdata\<close>, which is
  already \<open>payload[4:]\<close>, at \<open>4 + lastsize\<close>.
\<close>

theorem sol_retransmit_loses_new_bytes:
  "printed (snd (got_sol_payload [1, 0, 0, 0, 97, 98, 99, 100, 101] console_after_abc))
     = [[97, 98, 99]]
   \<and> drop (lastsize console_after_abc) [97, 98, 99, 100, 101] = [100, 101]"
  by (simp add: got_sol_payload_def sol_remote_data_def sol_ack_def console_after_abc_def
        print_data_def session_send_payload_def Let_def)

subsection \<open>Logout of a session that is not logged in\<close>

text \<open>
  C9. \<open>logout\<close> on a session with \<open>logged == 0\<close> returns \<open>{'success': True}\<close> when no
  callback is given and otherwise calls the callback with it; no datagram is sent
  and no attribute of the session changes (the only new entry of the log is the
  call of the callback).
\<close>

theorem logout_not_logged:
  assumes "logged s = 0"
  shows "logout E None args s = (Return (Some Rsp_success), s)
       \<and> logout E (Some f) args s =
           (Return None, s\<lparr>trace := trace s @ [Logout_callback f Rsp_success]\<rparr>)"
  using assms by (simp add: logout_def)

theorem logout_not_logged_witness:
  "logged idle_session = 0
   \<and> logout sample_env None None idle_session = (Return (Some Rsp_success), idle_session)
   \<and> logout sample_env (Some 3) None idle_session =
       (Return None, idle_session\<lparr>trace := trace idle_session @ [Logout_callback 3 Rsp_success]\<rparr>)"
  using logout_not_logged [of idle_session sample_env None 3]
  by (simp add: idle_session_def)

subsection \<open>Operations that leave the stored remote sequence numbers alone\<close>

text \<open>
  Updating any attribute other than the two sequence numbers keeps
  \<open>same_remote_seq\<close>; so does every operation that an inbound datagram can lead
  to, once the datagram's own number has been stored.
\<close>

lemma same_remote_seq_update [simp]:
  "same_remote_seq s0 (incommand_update f_incommand s) = same_remote_seq s0 s"
  "same_remote_seq s0 (cleaningup_update f_cleaningup s) = same_remote_seq s0 s"
  "same_remote_seq s0 (lastpayload_update f_lastpayload s) = same_remote_seq s0 s"
  "same_remote_seq s0 (last_payload_type_update f_last_payload_type s) = same_remote_seq s0 s"
  "same_remote_seq s0 (userid_update f_userid s) = same_remote_seq s0 s"
  "same_remote_seq s0 (password_update f_password s) = same_remote_seq s0 s"
  "same_remote_seq s0 (kg_update f_kg s) = same_remote_seq s0 s"
  "same_remote_seq s0 (nowait_update f_nowait s) = same_remote_seq s0 s"
  "same_remote_seq s0 (pendingpayloads_update f_pendingpayloads s) = same_remote_seq s0 s"
  "same_remote_seq s0 (logonwaiters_update f_logonwaiters s) = same_remote_seq s0 s"
  "same_remote_seq s0 (logontries_update f_logontries s) = same_remote_seq s0 s"
  "same_remote_seq s0 (localsid_update f_localsid s) = same_remote_seq s0 s"
  "same_remote_seq s0 (privlevel_update f_privlevel s) = same_remote_seq s0 s"
  "same_remote_seq s0 (confalgo_update f_confalgo s) = same_remote_seq s0 s"
  "same_remote_seq s0 (aeskey_update f_aeskey s) = same_remote_seq s0 s"
  "same_remote_seq s0 (integrityalgo_update f_integrityalgo s) = same_remote_seq s0 s"
  "same_remote_seq s0 (k1_update f_k1 s) = same_remote_seq s0 s"
  "same_remote_seq s0 (rmcptag_update f_rmcptag s) = same_remote_seq s0 s"
  "same_remote_seq s0 (ipmicallback_update f_ipmicallback s) = same_remote_seq s0 s"
  "same_remote_seq s0 (ipmicallbackargs_update f_ipmicallbackargs s) = same_remote_seq s0 s"
  "same_remote_seq s0 (sessioncontext_update f_sessioncontext s) = same_remote_seq s0 s"
  "same_remote_seq s0 (sequencenumber_update f_sequencenumber s) = same_remote_seq s0 s"
  "same_remote_seq s0 (sessionid_update f_sessionid s) = same_remote_seq s0 s"
  "same_remote_seq s0 (authtype_update f_authtype s) = same_remote_seq s0 s"
  "same_remote_seq s0 (ipmiversion_update f_ipmiversion s) = same_remote_seq s0 s"
  "same_remote_seq s0 (timeout_update f_timeout s) = same_remote_seq s0 s"
  "same_remote_seq s0 (seqlun_update f_seqlun s) = same_remote_seq s0 s"
  "same_remote_seq s0 (rqaddr_update f_rqaddr s) = same_remote_seq s0 s"
  "same_remote_seq s0 (logged_update f_logged s) = same_remote_seq s0 s"
  "same_remote_seq s0 (sockaddr_update f_sockaddr s) = same_remote_seq s0 s"
  "same_remote_seq s0 (tabooseq_update f_tabooseq s) = same_remote_seq s0 s"
  "same_remote_seq s0 (ipmi15only_update f_ipmi15only s) = same_remote_seq s0 s"
  "same_remote_seq s0 (sol_handler_update f_sol_handler s) = same_remote_seq s0 s"
  "same_remote_seq s0 (expectedcmd_update f_expectedcmd s) = same_remote_seq s0 s"
  "same_remote_seq s0 (expectednetfn_update f_expectednetfn s) = same_remote_seq s0 s"
  "same_remote_seq s0 (hasretried_update f_hasretried s) = same_remote_seq s0 s"
  "same_remote_seq s0 (pendingsessionid_update f_pendingsessionid s) = same_remote_seq s0 s"
  "same_remote_seq s0 (allowedpriv_update f_allowedpriv s) = same_remote_seq s0 s"
  "same_remote_seq s0 (randombytes_update f_randombytes s) = same_remote_seq s0 s"
  "same_remote_seq s0 (remoterandombytes_update f_remoterandombytes s) = same_remote_seq s0 s"
  "same_remote_seq s0 (remoteguid_update f_remoteguid s) = same_remote_seq s0 s"
  "same_remote_seq s0 (sik_update f_sik s) = same_remote_seq s0 s"
  "same_remote_seq s0 (k2_update f_k2 s) = same_remote_seq s0 s"
  "same_remote_seq s0 (lastresponse_update f_lastresponse s) = same_remote_seq s0 s"
  "same_remote_seq s0 (waiting_timeout_update f_waiting_timeout s) = same_remote_seq s0 s"
  "same_remote_seq s0 (keepalive_timeout_update f_keepalive_timeout s) = same_remote_seq s0 s"
  "same_remote_seq s0 (trace_update f_trace s) = same_remote_seq s0 s"
  by (simp_all add: same_remote_seq_def)

lemma same_remote_seq_refl [simp]: "same_remote_seq s s"
  by (simp add: same_remote_seq_def)

lemma same_remote_seq_fields:
  "same_remote_seq s0 s \<Longrightarrow>
     remsequencenumber s = remsequencenumber s0 \<and> remseqnumber s = remseqnumber s0"
  by (simp add: same_remote_seq_def)

lemma same_remote_seq_bind:
  assumes "\<And>a s1. same_remote_seq s0 (snd (f a s1)) = same_remote_seq s0 s1"
  shows "same_remote_seq s0 (snd (bind_result m f)) = same_remote_seq s0 (snd m)"
proof (cases m)
  case (Pair r s1)
  with assms show ?thesis by (cases r) (simp_all add: bind_result_def)
qed

lemma xmit_packet_same_seq [simp]:
  "same_remote_seq s0 (snd (xmit_packet E p pt retry d s)) = same_remote_seq s0 s"
  by (cases d) (simp_all add: xmit_packet_def Let_def)

lemma send_payload_same_seq [simp]:
  "same_remote_seq s0 (snd (send_payload E p pt retry d s)) = same_remote_seq s0 s"
  by (cases p; cases "lastpayload s")
     (simp_all add: send_payload_def Let_def split: option.split)

lemma taboo_loop_same_seq [simp]:
  "same_remote_seq s0 (snd (taboo_loop n netfn command s)) = same_remote_seq s0 s"
  by (induction n netfn command s rule: taboo_loop.induct)
     (simp_all split: option.split)

lemma make_ipmi_payload_same_seq [simp]:
  "same_remote_seq s0 (snd (make_ipmi_payload netfn command data s)) = same_remote_seq s0 s"
  by (simp add: make_ipmi_payload_def same_remote_seq_bind Let_def)

lemma send_ipmi_net_payload_same_seq [simp]:
  "same_remote_seq s0 (snd (send_ipmi_net_payload E netfn command data retry d s)) =
     same_remote_seq s0 s"
  by (simp add: send_ipmi_net_payload_def same_remote_seq_bind)

lemma call_with_optional_args_same_seq [simp]:
  "same_remote_seq s0 (snd (call_with_optional_args cb r a s)) = same_remote_seq s0 s"
  by (simp add: call_with_optional_args_def split: option.split callback.split)

lemma onlogon_same_seq [simp]:
  "same_remote_seq s0 (snd (onlogon r s)) = same_remote_seq s0 s"
  by (simp add: onlogon_def split: prod.split)

lemma send_next_pending_same_seq [simp]:
  "same_remote_seq s0 (snd (send_next_pending E s)) = same_remote_seq s0 s"
  by (simp add: send_next_pending_def split: list.split prod.split)

lemma complete_request_same_seq [simp]:
  "same_remote_seq s0 (complete_request s) = same_remote_seq s0 s"
  by (simp add: complete_request_def Let_def split: option.split)

lemma parse_ipmi_payload_same_seq [simp]:
  "same_remote_seq s0 (snd (parse_ipmi_payload E payload s)) = same_remote_seq s0 s"
  by (simp add: parse_ipmi_payload_def same_remote_seq_bind Let_def
           split: result.split bool.split)

lemma initsession_same_seq [simp]:
  "same_remote_seq s0 (initsession E s) = same_remote_seq s0 s"
  by (simp add: initsession_def)

lemma get_channel_auth_cap_same_seq [simp]:
  "same_remote_seq s0 (snd (get_channel_auth_cap E s)) = same_remote_seq s0 s"
  by (simp add: get_channel_auth_cap_def Let_def)

lemma relog_same_seq [simp]:
  "same_remote_seq s0 (snd (relog E s)) = same_remote_seq s0 s"
  by (simp add: relog_def Let_def)

lemma req_priv_level_same_seq [simp]:
  "same_remote_seq s0 (snd (req_priv_level E s)) = same_remote_seq s0 s"
  by (simp add: req_priv_level_def)

lemma send_rakp1_same_seq [simp]:
  "same_remote_seq s0 (snd (send_rakp1 E s)) = same_remote_seq s0 s"
  by (simp add: send_rakp1_def Let_def)

lemma send_rakp3_same_seq [simp]:
  "same_remote_seq s0 (snd (send_rakp3 E s)) = same_remote_seq s0 s"
  by (simp add: send_rakp3_def Let_def)

lemma got_rmcp_response_same_seq [simp]:
  "same_remote_seq s0 (snd (got_rmcp_response E data s)) = same_remote_seq s0 s"
  by (simp add: got_rmcp_response_def same_remote_seq_bind Let_def split: option.split)

lemma got_rakp2_same_seq [simp]:
  "same_remote_seq s0 (snd (got_rakp2 E data s)) = same_remote_seq s0 s"
  by (simp add: got_rakp2_def same_remote_seq_bind Let_def split: option.split)

lemma got_rakp4_same_seq [simp]:
  "same_remote_seq s0 (snd (got_rakp4 E data s)) = same_remote_seq s0 s"
  by (simp add: got_rakp4_def same_remote_seq_bind Let_def split: option.split)

lemma got_sol_same_seq [simp]:
  "same_remote_seq s0 (snd (got_sol E payload s)) = same_remote_seq s0 s"
  by (simp add: got_sol_def same_remote_seq_bind)

lemma ipmi15_checks_same_seq [simp]:
  "same_remote_seq s0 (snd (ipmi15_checks E data new s)) = same_remote_seq s0 s"
  by (simp add: ipmi15_checks_def same_remote_seq_bind Let_def
           split: option.split result.split)

subsection \<open>RMCP+ datagrams that fail a check\<close>



subsection \<open>The IPMI 1.5 path stores the sequence number first\<close>

text \<open>
  C10. In the IPMI 1.5 path (authtype byte 0 or 2), a datagram whose sequence
  number is not lower than the stored \<open>remsequencenumber\<close> has that number stored
  before the authtype, session id and MD5 checks run: whatever happens next, the
  stored value is the datagram's, and a datagram dropped by the authtype check
  (result -2), the session id check (result -1) or the auth code comparison leaves
  the session changed in exactly that attribute (and in \<open>sockaddr\<close>, when the
  peer's address was not yet known).
\<close>

theorem ipmi15_sequence_stored_before_checks:
  fixes s :: session and peer :: "nat option"
  defines "s1 \<equiv> (if sockaddr s = None \<and> peer \<noteq> None then s\<lparr>sockaddr := peer\<rparr> else s)"
  assumes "4 < length data" and "data ! 4 = 0 \<or> data ! 4 = 2"
    and "sockaddr s = None \<or> peer = None \<or> sockaddr s = peer"
    and "unpack_le32 (slice 5 9 data) = Some new"
    and "remsequencenumber s = None \<or> (\<exists>old. remsequencenumber s = Some old \<and> old \<le> new)"
  shows "remsequencenumber (snd (handle_ipmi_packet E data peer s)) = Some new
       \<and> (data ! 4 \<noteq> authtype s \<longrightarrow>
            handle_ipmi_packet E data peer s =
              (Return (Some (- 2)), s1\<lparr>remsequencenumber := Some new\<rparr>))
       \<and> (data ! 4 = authtype s \<and>
          (\<exists>sid. unpack_le32 (slice 9 13 data) = Some sid \<and> sid \<noteq> sessionid s) \<longrightarrow>
            handle_ipmi_packet E data peer s =
              (Return (Some (- 1)), s1\<lparr>remsequencenumber := Some new\<rparr>))
       \<and> (data ! 4 = authtype s \<and> data ! 4 = 2 \<and> 29 < length data \<and>
          unpack_le32 (slice 9 13 data) = Some (sessionid s) \<and>
          (\<exists>code. ipmi15authcode_remote E
                     (slice 14 (14 + (take 13 data @ drop 29 data) ! 13) (take 13 data @ drop 29 data))
                     new s = Return code \<and> code \<noteq> slice 13 29 data) \<longrightarrow>
            handle_ipmi_packet E data peer s =
              (Return None, s1\<lparr>remsequencenumber := Some new\<rparr>))"
proof -
  have notlow: "\<not> (case remsequencenumber s1 of None \<Rightarrow> False | Some old \<Rightarrow> new < old)"
    using assms(6) by (auto simp: s1_def)
  have unfold: "handle_ipmi_packet E data peer s =
                  ipmi15_checks E data new (s1\<lparr>remsequencenumber := Some new\<rparr>)"
    using assms(2-5) notlow
    by (auto simp: handle_ipmi_packet_def s1_def Let_def)
  have "same_remote_seq (s1\<lparr>remsequencenumber := Some new\<rparr>)
          (snd (ipmi15_checks E data new (s1\<lparr>remsequencenumber := Some new\<rparr>)))"
    by simp
  then have stored: "remsequencenumber (snd (handle_ipmi_packet E data peer s)) = Some new"
    unfolding unfold by (simp add: same_remote_seq_def)
  have authtype_drop: "ipmi15_checks E data new (s1\<lparr>remsequencenumber := Some new\<rparr>) =
      (Return (Some (- 2)), s1\<lparr>remsequencenumber := Some new\<rparr>)"
    if "data ! 4 \<noteq> authtype s"
    using that by (simp add: ipmi15_checks_def s1_def)
  have sid_drop: "ipmi15_checks E data new (s1\<lparr>remsequencenumber := Some new\<rparr>) =
      (Return (Some (- 1)), s1\<lparr>remsequencenumber := Some new\<rparr>)"
    if "data ! 4 = authtype s" "unpack_le32 (slice 9 13 data) = Some sid" "sid \<noteq> sessionid s"
    for sid
    using that by (simp add: ipmi15_checks_def s1_def)
  have auth_same: "ipmi15authcode_remote E p new (s1\<lparr>remsequencenumber := Some new\<rparr>) =
      ipmi15authcode_remote E p new s" for p
    by (simp add: ipmi15authcode_remote_def s1_def)
  have code_drop: "ipmi15_checks E data new (s1\<lparr>remsequencenumber := Some new\<rparr>) =
      (Return None, s1\<lparr>remsequencenumber := Some new\<rparr>)"
    if "data ! 4 = authtype s" "data ! 4 = 2" "29 < length data"
       "unpack_le32 (slice 9 13 data) = Some (sessionid s)"
       "ipmi15authcode_remote E
          (slice 14 (14 + (take 13 data @ drop 29 data) ! 13) (take 13 data @ drop 29 data))
          new s = Return code" "code \<noteq> slice 13 29 data"
    for code
  proof -
    have ne: "slice 13 29 data \<noteq> []"
      using that(3) by (simp add: slice_def)
    have sid: "sessionid s1 = sessionid s" "authtype s1 = authtype s"
      by (simp_all add: s1_def)
    show ?thesis
      using that ne sid
      by (simp add: ipmi15_checks_def Let_def auth_same)
  qed
  show ?thesis
    using stored authtype_drop sid_drop code_drop unfolding unfold by blast
qed

theorem ipmi15_sequence_stored_before_checks_witness:
  "4 < length wrong_authtype_datagram
   \<and> wrong_authtype_datagram ! 4 = 0
   \<and> sockaddr md5_session = Some 1
   \<and> unpack_le32 (slice 5 9 wrong_authtype_datagram) = Some 5
   \<and> remsequencenumber md5_session = Some 3
   \<and> authtype md5_session = 2
   \<and> handle_ipmi_packet sample_env wrong_authtype_datagram (Some 1) md5_session =
       (Return (Some (- 2)), md5_session\<lparr>remsequencenumber := Some 5\<rparr>)"
  using ipmi15_sequence_stored_before_checks
          [of wrong_authtype_datagram md5_session "Some 1" 5 sample_env]
  by (simp add: wrong_authtype_datagram_def md5_session_def idle_session_def slice_def)

subsection \<open>The stored remote sequence numbers never go back\<close>

lemma handle_ipmi2_packet_remsequencenumber:
  "remsequencenumber (snd (handle_ipmi2_packet E rawdata s)) = remsequencenumber s"
proof -
  have keep: "same_remote_seq t t' \<Longrightarrow> remsequencenumber t' = remsequencenumber t" for t t'
    by (simp add: same_remote_seq_def)
  have a: "remsequencenumber (snd (got_rmcp_response E d s)) = remsequencenumber s" for d
    by (rule keep) simp
  have b: "remsequencenumber (snd (got_rakp2 E d s)) = remsequencenumber s" for d
    by (rule keep) simp
  have c: "remsequencenumber (snd (got_rakp4 E d s)) = remsequencenumber s" for d
    by (rule keep) simp
  have d: "remsequencenumber (snd (bind_result (parse_ipmi_payload E p t) (\<lambda>_ s. (Return None, s))))
             = remsequencenumber t" for p t
    by (rule keep) (simp add: same_remote_seq_bind)
  have e: "remsequencenumber (snd (got_sol E p t)) = remsequencenumber t" for p t
    by (rule keep) simp
  show ?thesis
    by (simp add: handle_ipmi2_packet_def Let_def a b c d e
             split: option.split result.split)
qed

lemma handle_ipmi2_packet_remseqnumber:
  assumes "remseqnumber s = Some old"
  shows "\<exists>new. remseqnumber (snd (handle_ipmi2_packet E rawdata s)) = Some new
               \<and> (old \<le> new \<or> old = 4294967295)"
proof -
  have keep: "same_remote_seq t t' \<Longrightarrow> remseqnumber t' = remseqnumber t" for t t'
    by (simp add: same_remote_seq_def)
  have a: "remseqnumber (snd (got_rmcp_response E d s)) = remseqnumber s" for d
    by (rule keep) simp
  have b: "remseqnumber (snd (got_rakp2 E d s)) = remseqnumber s" for d
    by (rule keep) simp
  have c: "remseqnumber (snd (got_rakp4 E d s)) = remseqnumber s" for d
    by (rule keep) simp
  have d: "remseqnumber (snd (bind_result (parse_ipmi_payload E p t) (\<lambda>_ s. (Return None, s))))
             = remseqnumber t" for p t
    by (rule keep) (simp add: same_remote_seq_bind)
  have e: "remseqnumber (snd (got_sol E p t)) = remseqnumber t" for p t
    by (rule keep) simp
  show ?thesis
    using assms
    by (auto simp add: handle_ipmi2_packet_def Let_def a b c d e remseqnumber_too_low_def
             split: option.split result.split)
qed

lemma snd_bind_result_const:
  "snd (bind_result m (\<lambda>_ s. (r, s))) = snd m"
proof (cases m)
  case (Pair x s1)
  then show ?thesis by (cases x) (simp_all add: bind_result_def)
qed

lemma ipmi15_checks_keeps:
  "remsequencenumber (snd (ipmi15_checks E data new s)) = remsequencenumber s"
  "remseqnumber (snd (ipmi15_checks E data new s)) = remseqnumber s"
proof -
  have "same_remote_seq s (snd (ipmi15_checks E data new s))" by simp
  then show "remsequencenumber (snd (ipmi15_checks E data new s)) = remsequencenumber s"
    and "remseqnumber (snd (ipmi15_checks E data new s)) = remseqnumber s"
    by (simp_all add: same_remote_seq_def)
qed

lemma handle_ipmi_packet_remsequencenumber:
  assumes "remsequencenumber s = Some old"
  shows "\<exists>new. remsequencenumber (snd (handle_ipmi_packet E data peer s)) = Some new \<and> old \<le> new"
  using assms
  by (auto simp add: handle_ipmi_packet_def Let_def snd_bind_result_const
        handle_ipmi2_packet_remsequencenumber ipmi15_checks_keeps
        split: option.split)

lemma handle_ipmi_packet_remseqnumber:
  assumes "remseqnumber s = Some old"
  shows "\<exists>new. remseqnumber (snd (handle_ipmi_packet E data peer s)) = Some new
               \<and> (old \<le> new \<or> old = 4294967295)"
proof -
  have two: "\<exists>new. remseqnumber (snd (handle_ipmi2_packet E data t)) = Some new
               \<and> (old \<le> new \<or> old = 4294967295)"
    if "remseqnumber t = Some old" for t
    using that by (rule handle_ipmi2_packet_remseqnumber)
  show ?thesis
    using assms two [of s] two [of "s\<lparr>sockaddr := peer\<rparr>"]
    by (auto simp add: handle_ipmi_packet_def Let_def snd_bind_result_const
          ipmi15_checks_keeps split: option.split)
qed

lemma ipmi15_lower_rejected:
  assumes "4 < length data" and "data ! 4 = 0 \<or> data ! 4 = 2"
    and "unpack_le32 (slice 5 9 data) = Some n"
    and "remsequencenumber s = Some old" and "n < old"
  shows "snd (handle_ipmi_packet E data peer s) =
           (if sockaddr s = None \<and> peer \<noteq> None then s\<lparr>sockaddr := peer\<rparr> else s)"
  using assms by (auto simp add: handle_ipmi_packet_def Let_def)

lemma ipmi2_lower_rejected_inner:
  assumes "5 < length data" and "data ! 5 AND 63 = 0 \<or> data ! 5 AND 63 = 1"
    and "unpack_le32 (slice 10 14 data) = Some n"
    and "remseqnumber s = Some old" and "n < old" and "old \<noteq> 4294967295"
  shows "snd (handle_ipmi2_packet E data s) = s"
  using assms
  by (auto simp add: handle_ipmi2_packet_def Let_def remseqnumber_too_low_def
        split: option.split)

lemma ipmi2_lower_rejected:
  assumes "5 < length data" and "data ! 4 = 6"
    and "data ! 5 AND 63 = 0 \<or> data ! 5 AND 63 = 1"
    and "unpack_le32 (slice 10 14 data) = Some n"
    and "remseqnumber s = Some old" and "n < old" and "old \<noteq> 4294967295"
  shows "snd (handle_ipmi_packet E data peer s) =
           (if sockaddr s = None \<and> peer \<noteq> None then s\<lparr>sockaddr := peer\<rparr> else s)"
proof -
  have inner: "snd (handle_ipmi2_packet E data t) = t" if "remseqnumber t = Some old" for t
    using assms(1,3,4) that assms(6,7) by (rule ipmi2_lower_rejected_inner)
  show ?thesis
    using assms(1,2,5) inner [of s] inner [of "s\<lparr>sockaddr := peer\<rparr>"]
    by (auto simp add: handle_ipmi_packet_def Let_def snd_bind_result_const)
qed

lemma ipmi2_accepted_inner:
  assumes "5 < length data" and "data ! 5 AND 63 = 0 \<or> data ! 5 AND 63 = 1"
    and "data ! 5 AND 64 \<noteq> 0" and "k1 s = Some key"
    and "last_n 12 data = take 12 (hmac_sha1 E key (slice_to_end_minus 4 12 data))"
    and "unpack_le32 (slice 6 10 data) = Some (localsid s)"
    and "unpack_le32 (slice 10 14 data) = Some n"
    and "\<not> remseqnumber_too_low n s"
  shows "remseqnumber (snd (handle_ipmi2_packet E data s)) = Some n"
proof -
  have keep: "same_remote_seq t t' \<Longrightarrow> remseqnumber t' = remseqnumber t" for t t'
    by (simp add: same_remote_seq_def)
  have d: "remseqnumber (snd (bind_result (parse_ipmi_payload E p t) (\<lambda>_ s. (Return None, s))))
             = remseqnumber t" for p t
    by (rule keep) (simp add: same_remote_seq_bind)
  have e: "remseqnumber (snd (got_sol E p t)) = remseqnumber t" for p t
    by (rule keep) simp
  show ?thesis
    using assms
    by (auto simp add: handle_ipmi2_packet_def Let_def d e split: result.split)
qed

lemma ipmi2_wrap_accepted:
  assumes "5 < length data" and "data ! 4 = 6"
    and "data ! 5 AND 63 = 0 \<or> data ! 5 AND 63 = 1"
    and "data ! 5 AND 64 \<noteq> 0" and "k1 s = Some key"
    and "last_n 12 data = take 12 (hmac_sha1 E key (slice_to_end_minus 4 12 data))"
    and "unpack_le32 (slice 6 10 data) = Some (localsid s)"
    and "unpack_le32 (slice 10 14 data) = Some n"
    and "remseqnumber s = Some 4294967295"
    and "sockaddr s = None \<or> peer = None \<or> sockaddr s = peer"
  shows "remseqnumber (snd (handle_ipmi_packet E data peer s)) = Some n"
proof -
  have inner: "remseqnumber (snd (handle_ipmi2_packet E data t)) = Some n"
    if "k1 t = Some key" "localsid t = localsid s" "remseqnumber t = Some 4294967295" for t
    using assms(1,3,4) that(1) assms(6)
  proof (rule ipmi2_accepted_inner)
    show "unpack_le32 (slice 6 10 data) = Some (localsid t)" using assms(7) that(2) by simp
    show "unpack_le32 (slice 10 14 data) = Some n" by (rule assms(8))
    show "\<not> remseqnumber_too_low n t" using that(3) by (simp add: remseqnumber_too_low_def)
  qed
  show ?thesis
    using assms(1,2,5,9,10) inner [of s] inner [of "s\<lparr>sockaddr := peer\<rparr>"]
    by (auto simp add: handle_ipmi_packet_def Let_def snd_bind_result_const)
qed

lemma handle_ipmi2_packet_remseqnumber_change:
  "remseqnumber (snd (handle_ipmi2_packet E rawdata s)) = remseqnumber s
   \<or> ((rawdata ! 5 AND 63 = 0 \<or> rawdata ! 5 AND 63 = 1) \<and> rawdata ! 5 AND 64 \<noteq> 0
     \<and> (\<exists>key. k1 s = Some key
            \<and> last_n 12 rawdata = take 12 (hmac_sha1 E key (slice_to_end_minus 4 12 rawdata)))
     \<and> unpack_le32 (slice 6 10 rawdata) = Some (localsid s)
     \<and> (\<exists>n. unpack_le32 (slice 10 14 rawdata) = Some n \<and> \<not> remseqnumber_too_low n s
            \<and> remseqnumber (snd (handle_ipmi2_packet E rawdata s)) = Some n))"
proof -
  let ?same = "remseqnumber (snd (handle_ipmi2_packet E rawdata s)) = remseqnumber s"
  have keep: "same_remote_seq t t' \<Longrightarrow> remseqnumber t' = remseqnumber t" for t t'
    by (simp add: same_remote_seq_def)
  have a: "remseqnumber (snd (got_rmcp_response E d s)) = remseqnumber s" for d
    by (rule keep) simp
  have b: "remseqnumber (snd (got_rakp2 E d s)) = remseqnumber s" for d
    by (rule keep) simp
  have c: "remseqnumber (snd (got_rakp4 E d s)) = remseqnumber s" for d
    by (rule keep) simp
  show ?thesis
  proof (cases "5 < length rawdata \<and> (rawdata ! 5 AND 63 = 0 \<or> rawdata ! 5 AND 63 = 1)
                 \<and> rawdata ! 5 AND 64 \<noteq> 0")
    case False
    have ?same
    proof (cases "length rawdata \<le> 5")
      case True
      then show ?thesis by (simp add: handle_ipmi2_packet_def)
    next
      case long: False
      show ?thesis
      proof (cases "rawdata ! 5 AND 63 = 0 \<or> rawdata ! 5 AND 63 = 1")
        case True
        with False long have "rawdata ! 5 AND 64 = 0" by auto
        with True long show ?thesis
          by (auto simp add: handle_ipmi2_packet_def Let_def)
      next
        case False
        with long show ?thesis
          by (simp add: handle_ipmi2_packet_def Let_def a b c)
      qed
    qed
    then show ?thesis by simp
  next
    case front: True
    show ?thesis
    proof (cases "k1 s")
      case None
      with front have ?same by (auto simp add: handle_ipmi2_packet_def Let_def)
      then show ?thesis by simp
    next
      case (Some key)
      show ?thesis
      proof (cases "last_n 12 rawdata = take 12 (hmac_sha1 E key (slice_to_end_minus 4 12 rawdata))")
        case False
        with front Some have ?same by (auto simp add: handle_ipmi2_packet_def Let_def)
        then show ?thesis by simp
      next
        case mac: True
        show ?thesis
        proof (cases "unpack_le32 (slice 6 10 rawdata) = Some (localsid s)")
          case False
          with front Some mac have ?same
            by (cases "unpack_le32 (slice 6 10 rawdata)")
               (auto simp add: handle_ipmi2_packet_def Let_def)
          then show ?thesis by simp
        next
          case sid: True
          show ?thesis
          proof (cases "unpack_le32 (slice 10 14 rawdata)")
            case None
            with front Some mac sid have ?same
              by (auto simp add: handle_ipmi2_packet_def Let_def)
            then show ?thesis by simp
          next
            case (Some n)
            show ?thesis
            proof (cases "remseqnumber_too_low n s")
              case True
              with front \<open>k1 s = Some key\<close> mac sid Some have ?same
                by (auto simp add: handle_ipmi2_packet_def Let_def)
              then show ?thesis by simp
            next
              case False
              have "remseqnumber (snd (handle_ipmi2_packet E rawdata s)) = Some n"
                using front \<open>k1 s = Some key\<close> mac sid Some False
                by (intro ipmi2_accepted_inner) auto
              with front \<open>k1 s = Some key\<close> mac sid Some False show ?thesis by simp
            qed
          qed
        qed
      qed
    qed
  qed
qed

lemma handle_ipmi_packet_remseqnumber_change:
  "remseqnumber (snd (handle_ipmi_packet E data peer s)) = remseqnumber s
   \<or> (data ! 4 = 6 \<and> (data ! 5 AND 63 = 0 \<or> data ! 5 AND 63 = 1) \<and> data ! 5 AND 64 \<noteq> 0
     \<and> (\<exists>key. k1 s = Some key
            \<and> last_n 12 data = take 12 (hmac_sha1 E key (slice_to_end_minus 4 12 data)))
     \<and> unpack_le32 (slice 6 10 data) = Some (localsid s)
     \<and> (\<exists>n. unpack_le32 (slice 10 14 data) = Some n \<and> \<not> remseqnumber_too_low n s
            \<and> remseqnumber (snd (handle_ipmi_packet E data peer s)) = Some n))"
proof (cases "data ! 4 = 6 \<and> 4 < length data
              \<and> \<not> (sockaddr s \<noteq> None \<and> peer \<noteq> None \<and> sockaddr s \<noteq> peer)")
  case False
  then have "remseqnumber (snd (handle_ipmi_packet E data peer s)) = remseqnumber s"
    by (auto simp add: handle_ipmi_packet_def Let_def ipmi15_checks_keeps split: option.split)
  then show ?thesis by simp
next
  case True
  define t where "t = (if sockaddr s = None \<and> peer \<noteq> None then s\<lparr>sockaddr := peer\<rparr> else s)"
  have t: "remseqnumber t = remseqnumber s" "k1 t = k1 s" "localsid t = localsid s"
    "remseqnumber_too_low n t = remseqnumber_too_low n s" for n
    by (simp_all add: t_def remseqnumber_too_low_def)
  have after: "snd (handle_ipmi_packet E data peer s) = snd (handle_ipmi2_packet E data t)"
    using True by (auto simp add: handle_ipmi_packet_def Let_def snd_bind_result_const t_def)
  show ?thesis
    using handle_ipmi2_packet_remseqnumber_change [of E data t] True
    by (simp add: after t)
qed

lemma setup_payload_keeps_inner:
  assumes "rawdata ! 5 AND 63 = 17 \<or> rawdata ! 5 AND 63 = 19 \<or> rawdata ! 5 AND 63 = 21"
  shows "same_remote_seq s0 (snd (handle_ipmi2_packet E rawdata s)) = same_remote_seq s0 s"
  using assms
  by (elim disjE) (simp_all add: handle_ipmi2_packet_def Let_def)

lemma setup_payload_keeps_remote_seq:
  assumes "data ! 4 = 6"
    and "data ! 5 AND 63 = 17 \<or> data ! 5 AND 63 = 19 \<or> data ! 5 AND 63 = 21"
  shows "same_remote_seq s (snd (handle_ipmi_packet E data peer s))"
  using assms(1)
  by (simp add: handle_ipmi_packet_def Let_def snd_bind_result_const
        setup_payload_keeps_inner [OF assms(2)])

text \<open>
  What does hold of the two stored numbers. Processing an inbound datagram never
  lowers the stored \<open>remsequencenumber\<close> (IPMI 1.5 path), and never lowers the stored
  \<open>remseqnumber\<close> (RMCP+ path) unless that is \<open>0xFFFFFFFF\<close>. An IPMI 1.5 datagram with
  a number below the stored one, and an RMCP+ datagram of payload type 0 or 1 with a
  number below a stored one other than \<open>0xFFFFFFFF\<close>, is rejected: the session keeps
  nothing of it but, for a first datagram, the peer's address. An RMCP+ datagram of
  payload type 0 or 1 that passes the mutual-auth, HMAC and session id checks while
  the stored number is \<open>0xFFFFFFFF\<close> is accepted whatever its number, which is then
  stored. By \<open>handle_ipmi_packet_remseqnumber_change\<close> the stored \<open>remseqnumber\<close>
  changes only in that way, to the number of an accepted datagram of payload type 0
  or 1, and by \<open>setup_payload_keeps_remote_seq\<close> the session-setup payload types
  0x11, 0x13 and 0x15 leave both stored numbers alone.
\<close>

theorem remote_sequence_numbers_monotone:
  "(remsequencenumber s = Some old \<longrightarrow>
      (\<exists>new. remsequencenumber (snd (handle_ipmi_packet E data peer s)) = Some new \<and> old \<le> new))
   \<and> (remseqnumber s = Some oldp \<longrightarrow>
      (\<exists>new. remseqnumber (snd (handle_ipmi_packet E data peer s)) = Some new
         \<and> (oldp \<le> new \<or> oldp = 4294967295)))
   \<and> (4 < length data \<and> (data ! 4 = 0 \<or> data ! 4 = 2)
      \<and> unpack_le32 (slice 5 9 data) = Some n
      \<and> remsequencenumber s = Some old \<and> n < old \<longrightarrow>
        snd (handle_ipmi_packet E data peer s) =
          (if sockaddr s = None \<and> peer \<noteq> None then s\<lparr>sockaddr := peer\<rparr> else s))
   \<and> (5 < length data \<and> data ! 4 = 6 \<and> (data ! 5 AND 63 = 0 \<or> data ! 5 AND 63 = 1)
      \<and> unpack_le32 (slice 10 14 data) = Some n
      \<and> remseqnumber s = Some oldp \<and> n < oldp \<and> oldp \<noteq> 4294967295 \<longrightarrow>
        snd (handle_ipmi_packet E data peer s) =
          (if sockaddr s = None \<and> peer \<noteq> None then s\<lparr>sockaddr := peer\<rparr> else s))
   \<and> (5 < length data \<and> data ! 4 = 6 \<and> (data ! 5 AND 63 = 0 \<or> data ! 5 AND 63 = 1)
      \<and> data ! 5 AND 64 \<noteq> 0 \<and> k1 s = Some key
      \<and> last_n 12 data = take 12 (hmac_sha1 E key (slice_to_end_minus 4 12 data))
      \<and> unpack_le32 (slice 6 10 data) = Some (localsid s)
      \<and> unpack_le32 (slice 10 14 data) = Some n
      \<and> remseqnumber s = Some 4294967295
      \<and> (sockaddr s = None \<or> peer = None \<or> sockaddr s = peer) \<longrightarrow>
        remseqnumber (snd (handle_ipmi_packet E data peer s)) = Some n)"
  using handle_ipmi_packet_remsequencenumber [of s old E data peer]
    handle_ipmi_packet_remseqnumber [of s oldp E data peer]
    ipmi15_lower_rejected [of data n s old E peer]
    ipmi2_lower_rejected [of data n s oldp E peer]
    ipmi2_wrap_accepted [of data s key E n peer]
  by blast

theorem remote_sequence_numbers_monotone_witness:
  "(\<exists>new. remsequencenumber
            (snd (handle_ipmi_packet sample_env wrong_authtype_datagram (Some 1) md5_session)) =
          Some new \<and> 3 \<le> new)
   \<and> snd (handle_ipmi_packet sample_env wrong_authtype_datagram (Some 1)
             (md5_session\<lparr>remsequencenumber := Some 9\<rparr>)) =
       md5_session\<lparr>remsequencenumber := Some 9\<rparr>
   \<and> (\<exists>new. remseqnumber
            (snd (handle_ipmi_packet sample_env (device_id_reply [1, 0, 0, 0]) (Some 1)
                    established_session)) = Some new \<and> 7 \<le> new)
   \<and> snd (handle_ipmi_packet sample_env (device_id_reply [1, 0, 0, 0]) (Some 1)
             established_session) = established_session
   \<and> remseqnumber
       (snd (handle_ipmi_packet sample_env (device_id_reply [1, 0, 0, 0]) (Some 1)
               (established_session\<lparr>remseqnumber := Some 4294967295\<rparr>))) = Some 1"
proof -
  note defs = wrong_authtype_datagram_def md5_session_def idle_session_def
    established_session_def device_id_reply_def sample_env_def sample_hmac_def
    slice_def last_n_def slice_to_end_minus_def
  have a: "\<exists>new. remsequencenumber
            (snd (handle_ipmi_packet sample_env wrong_authtype_datagram (Some 1) md5_session)) =
          Some new \<and> 3 \<le> new"
    using remote_sequence_numbers_monotone
      [where s = md5_session and old = 3 and E = sample_env
         and data = wrong_authtype_datagram and peer = "Some 1"]
    by (simp add: defs)
  have b: "snd (handle_ipmi_packet sample_env wrong_authtype_datagram (Some 1)
             (md5_session\<lparr>remsequencenumber := Some 9\<rparr>)) =
       md5_session\<lparr>remsequencenumber := Some 9\<rparr>"
    using remote_sequence_numbers_monotone
      [where s = "md5_session\<lparr>remsequencenumber := Some 9\<rparr>" and old = 9 and E = sample_env
         and data = wrong_authtype_datagram and peer = "Some 1" and n = 5]
    by (simp add: defs)
  have c: "\<exists>new. remseqnumber
            (snd (handle_ipmi_packet sample_env (device_id_reply [1, 0, 0, 0]) (Some 1)
                    established_session)) = Some new \<and> 7 \<le> new"
    using remote_sequence_numbers_monotone
      [where s = established_session and oldp = 7 and E = sample_env
         and data = "device_id_reply [1, 0, 0, 0]" and peer = "Some 1"]
    by (simp add: defs)
  have d: "snd (handle_ipmi_packet sample_env (device_id_reply [1, 0, 0, 0]) (Some 1)
             established_session) = established_session"
    using remote_sequence_numbers_monotone
      [where s = established_session and oldp = 7 and E = sample_env
         and data = "device_id_reply [1, 0, 0, 0]" and peer = "Some 1" and n = 1]
    by (simp add: defs)
  have e: "remseqnumber
       (snd (handle_ipmi_packet sample_env (device_id_reply [1, 0, 0, 0]) (Some 1)
               (established_session\<lparr>remseqnumber := Some 4294967295\<rparr>))) = Some 1"
    using remote_sequence_numbers_monotone
      [where s = "established_session\<lparr>remseqnumber := Some 4294967295\<rparr>"
         and E = sample_env and data = "device_id_reply [1, 0, 0, 0]" and peer = "Some 1"
         and n = 1 and key = "[9, 9, 9, 9, 9, 9, 9, 9, 9, 9, 9, 9, 9, 9, 9, 9, 9, 9, 9, 9]"]
    by (simp add: defs)
  from a b c d e show ?thesis by blast
qed

text \<open>
  C6. The claim: within a session the stored remote sequence number never decreases,
  but for an RMCP+ datagram accepted when the stored value is \<open>0xFFFFFFFF\<close>, and any
  other datagram whose sequence number is lower than the stored value is rejected.
  The code rejects less than that. The established session has stored sequence
  number 7; the open-session response (payload type 0x11) carries sequence number 0,
  which is lower, and 7 is not \<open>0xFFFFFFFF\<close>. \<open>_handle_ipmi2_packet\<close> hands it to
  \<open>_got_rmcp_response\<close> before any check, and the guard there, which is to ignore
  the payload in a state that is not valid for it, compares the login state with
  \<open>"Established"\<close>, while \<open>_got_rakp4\<close> sets \<open>'ESTABLISHED'\<close>. So the datagram is
  processed: the session drops its outstanding request, sends RAKP1 and leaves the
  established state for \<open>EXPECTINGRAKP2\<close>; the stored number stays 7. With the login
  state spelled as the guard spells it the same payload is ignored, as RAKP2 and
  RAKP4 payloads are by the guards of \<open>_got_rakp2\<close> and \<open>_got_rakp4\<close>.
\<close>

theorem lower_setup_datagram_not_rejected:
  "unpack_le32 (slice 10 14 stale_open_session_response) = Some 0
   \<and> remseqnumber established_session = Some 7
   \<and> sessioncontext established_session = Some ''ESTABLISHED''
   \<and> fst (handle_ipmi_packet sample_env stale_open_session_response (Some 1)
            established_session) = Return None
   \<and> sessioncontext
       (snd (handle_ipmi_packet sample_env stale_open_session_response (Some 1)
               established_session)) = Some ''EXPECTINGRAKP2''
   \<and> remseqnumber
       (snd (handle_ipmi_packet sample_env stale_open_session_response (Some 1)
               established_session)) = Some 7
   \<and> lastpayload
       (snd (handle_ipmi_packet sample_env stale_open_session_response (Some 1)
               established_session)) =
       Some [5, 0, 0, 0, 4, 3, 2, 1, 7, 7, 7, 7, 7, 7, 7, 7, 7, 7, 7, 7, 7, 7, 7, 7,
             4, 0, 0, 1, 97]
   \<and> trace
       (snd (handle_ipmi_packet sample_env stale_open_session_response (Some 1)
               established_session)) =
       [Sendto [5, 0, 0, 0, 4, 3, 2, 1, 7, 7, 7, 7, 7, 7, 7, 7, 7, 7, 7, 7, 7, 7, 7, 7,
                4, 0, 0, 1, 97] (Some 18)]
   \<and> (\<forall>d. got_rmcp_response sample_env d
             (established_session\<lparr>sessioncontext := Some ''Established''\<rparr>) =
           (Return (Some (- 9)), established_session\<lparr>sessioncontext := Some ''Established''\<rparr>))
   \<and> (\<forall>d. got_rakp2 sample_env d established_session =
           (Return (Some (- 9)), established_session))
   \<and> (\<forall>d. got_rakp4 sample_env d established_session =
           (Return (Some (- 9)), established_session))"
  by (simp add: handle_ipmi_packet_def handle_ipmi2_packet_def got_rmcp_response_def
        got_rakp2_def got_rakp4_def
        send_rakp1_def send_payload_def xmit_packet_def frame_error_def payload_type_error_def
        bind_result_def stale_open_session_response_def established_session_def
        idle_session_def sample_env_def slice_def pack_le32_def Let_def)

subsection \<open>One retried request in flight\<close>

text \<open>
  Updating any attribute other than \<open>pendingpayloads\<close> keeps \<open>queue_kept\<close>, and so
  do the operations that send: they append to the queue or leave it alone.
\<close>

lemma queue_kept_update [simp]:
  "queue_kept s0 (incommand_update f_incommand s) = queue_kept s0 s"
  "queue_kept s0 (cleaningup_update f_cleaningup s) = queue_kept s0 s"
  "queue_kept s0 (lastpayload_update f_lastpayload s) = queue_kept s0 s"
  "queue_kept s0 (last_payload_type_update f_last_payload_type s) = queue_kept s0 s"
  "queue_kept s0 (userid_update f_userid s) = queue_kept s0 s"
  "queue_kept s0 (password_update f_password s) = queue_kept s0 s"
  "queue_kept s0 (kg_update f_kg s) = queue_kept s0 s"
  "queue_kept s0 (nowait_update f_nowait s) = queue_kept s0 s"
  "queue_kept s0 (logonwaiters_update f_logonwaiters s) = queue_kept s0 s"
  "queue_kept s0 (logontries_update f_logontries s) = queue_kept s0 s"
  "queue_kept s0 (localsid_update f_localsid s) = queue_kept s0 s"
  "queue_kept s0 (privlevel_update f_privlevel s) = queue_kept s0 s"
  "queue_kept s0 (confalgo_update f_confalgo s) = queue_kept s0 s"
  "queue_kept s0 (aeskey_update f_aeskey s) = queue_kept s0 s"
  "queue_kept s0 (integrityalgo_update f_integrityalgo s) = queue_kept s0 s"
  "queue_kept s0 (k1_update f_k1 s) = queue_kept s0 s"
  "queue_kept s0 (rmcptag_update f_rmcptag s) = queue_kept s0 s"
  "queue_kept s0 (ipmicallback_update f_ipmicallback s) = queue_kept s0 s"
  "queue_kept s0 (ipmicallbackargs_update f_ipmicallbackargs s) = queue_kept s0 s"
  "queue_kept s0 (sessioncontext_update f_sessioncontext s) = queue_kept s0 s"
  "queue_kept s0 (sequencenumber_update f_sequencenumber s) = queue_kept s0 s"
  "queue_kept s0 (sessionid_update f_sessionid s) = queue_kept s0 s"
  "queue_kept s0 (authtype_update f_authtype s) = queue_kept s0 s"
  "queue_kept s0 (ipmiversion_update f_ipmiversion s) = queue_kept s0 s"
  "queue_kept s0 (timeout_update f_timeout s) = queue_kept s0 s"
  "queue_kept s0 (seqlun_update f_seqlun s) = queue_kept s0 s"
  "queue_kept s0 (rqaddr_update f_rqaddr s) = queue_kept s0 s"
  "queue_kept s0 (logged_update f_logged s) = queue_kept s0 s"
  "queue_kept s0 (sockaddr_update f_sockaddr s) = queue_kept s0 s"
  "queue_kept s0 (tabooseq_update f_tabooseq s) = queue_kept s0 s"
  "queue_kept s0 (ipmi15only_update f_ipmi15only s) = queue_kept s0 s"
  "queue_kept s0 (sol_handler_update f_sol_handler s) = queue_kept s0 s"
  "queue_kept s0 (expectedcmd_update f_expectedcmd s) = queue_kept s0 s"
  "queue_kept s0 (expectednetfn_update f_expectednetfn s) = queue_kept s0 s"
  "queue_kept s0 (hasretried_update f_hasretried s) = queue_kept s0 s"
  "queue_kept s0 (remsequencenumber_update f_remsequencenumber s) = queue_kept s0 s"
  "queue_kept s0 (remseqnumber_update f_remseqnumber s) = queue_kept s0 s"
  "queue_kept s0 (pendingsessionid_update f_pendingsessionid s) = queue_kept s0 s"
  "queue_kept s0 (allowedpriv_update f_allowedpriv s) = queue_kept s0 s"
  "queue_kept s0 (randombytes_update f_randombytes s) = queue_kept s0 s"
  "queue_kept s0 (remoterandombytes_update f_remoterandombytes s) = queue_kept s0 s"
  "queue_kept s0 (remoteguid_update f_remoteguid s) = queue_kept s0 s"
  "queue_kept s0 (sik_update f_sik s) = queue_kept s0 s"
  "queue_kept s0 (k2_update f_k2 s) = queue_kept s0 s"
  "queue_kept s0 (lastresponse_update f_lastresponse s) = queue_kept s0 s"
  "queue_kept s0 (waiting_timeout_update f_waiting_timeout s) = queue_kept s0 s"
  "queue_kept s0 (keepalive_timeout_update f_keepalive_timeout s) = queue_kept s0 s"
  "queue_kept s0 (trace_update f_trace s) = queue_kept s0 s"
  by (simp_all add: queue_kept_def)

lemma queue_kept_refl [simp]: "queue_kept s s"
  by (simp add: queue_kept_def)

lemma queue_kept_append:
  assumes "queue_kept s0 s"
  shows "queue_kept s0 (s\<lparr>pendingpayloads := pendingpayloads s @ extra\<rparr>)"
proof -
  from assms have eq: "take (length (pendingpayloads s0)) (pendingpayloads s) = pendingpayloads s0"
    by (simp add: queue_kept_def)
  then have "length (take (length (pendingpayloads s0)) (pendingpayloads s)) =
               length (pendingpayloads s0)"
    by simp
  then have "length (pendingpayloads s0) \<le> length (pendingpayloads s)"
    by simp
  with eq show ?thesis by (simp add: queue_kept_def)
qed

lemma queue_kept_bind:
  assumes "queue_kept s0 (snd m)"
    and "\<And>a s1. queue_kept s0 s1 \<Longrightarrow> queue_kept s0 (snd (f a s1))"
  shows "queue_kept s0 (snd (bind_result m f))"
proof (cases m)
  case (Pair r s1)
  with assms show ?thesis by (cases r) (auto simp: bind_result_def)
qed

lemma xmit_packet_queue [simp]:
  "queue_kept s0 (snd (xmit_packet E p pt retry d s)) = queue_kept s0 s"
  by (cases d) (simp_all add: xmit_packet_def Let_def)

lemma send_payload_queue:
  "queue_kept s0 s \<Longrightarrow> queue_kept s0 (snd (send_payload E p pt retry d s))"
  by (cases p; cases "lastpayload s")
     (simp_all add: send_payload_def Let_def queue_kept_append split: option.split)

lemma taboo_loop_queue [simp]:
  "queue_kept s0 (snd (taboo_loop n netfn command s)) = queue_kept s0 s"
  by (induction n netfn command s rule: taboo_loop.induct)
     (simp_all split: option.split)

lemma make_ipmi_payload_queue:
  "queue_kept s0 s \<Longrightarrow> queue_kept s0 (snd (make_ipmi_payload netfn command data s))"
  unfolding make_ipmi_payload_def
  by (rule queue_kept_bind) (simp_all add: Let_def)

lemma send_ipmi_net_payload_queue:
  "queue_kept s0 s \<Longrightarrow>
     queue_kept s0 (snd (send_ipmi_net_payload E netfn command data retry d s))"
  unfolding send_ipmi_net_payload_def
  by (intro queue_kept_bind make_ipmi_payload_queue send_payload_queue)

lemma raw_command_queue:
  "queue_kept s0 s \<Longrightarrow>
     queue_kept s0 (snd (raw_command E netfn command data retry cb args d s))"
  unfolding raw_command_def Let_def
  by (cases cb) (auto intro!: queue_kept_bind send_ipmi_net_payload_queue)

lemma call_with_optional_args_queue [simp]:
  "queue_kept s0 (snd (call_with_optional_args cb r a s)) = queue_kept s0 s"
  by (simp add: call_with_optional_args_def split: option.split callback.split)

lemma initsession_queue [simp]:
  "queue_kept s0 (initsession E s) = queue_kept s0 s"
  by (simp add: initsession_def)

lemma get_channel_auth_cap_queue:
  "queue_kept s0 s \<Longrightarrow> queue_kept s0 (snd (get_channel_auth_cap E s))"
  by (simp add: get_channel_auth_cap_def Let_def send_ipmi_net_payload_queue)

lemma relog_queue:
  "queue_kept s0 s \<Longrightarrow> queue_kept s0 (snd (relog E s))"
  by (simp add: relog_def Let_def get_channel_auth_cap_queue)

lemma open_rmcpplus_request_queue:
  "queue_kept s0 s \<Longrightarrow> queue_kept s0 (snd (open_rmcpplus_request E s))"
  by (simp add: open_rmcpplus_request_def Let_def send_payload_queue)

lemma timedout_queue:
  "queue_kept s0 s \<Longrightarrow> queue_kept s0 (snd (timedout E s))"
  unfolding timedout_def Let_def
  by (auto intro!: queue_kept_bind relog_queue open_rmcpplus_request_queue send_payload_queue)

lemma send_next_pending_empty:
  "pendingpayloads s = [] \<Longrightarrow> send_next_pending E s = (Return (), s)"
  by (simp add: send_next_pending_def)

lemma parse_ipmi_payload_mismatch:
  "reply_mismatch payload s = Return True \<Longrightarrow>
     parse_ipmi_payload E payload s = (Return (Some (- 1)), s)"
  by (simp add: parse_ipmi_payload_def)

lemma parse_ipmi_payload_queue:
  "queue_kept s (snd (parse_ipmi_payload E payload s)) \<or> reply_mismatch payload s = Return False"
proof (cases "reply_mismatch payload s")
  case (Return b)
  then show ?thesis by (cases b) (simp_all add: parse_ipmi_payload_mismatch)
next
  case (Raise e)
  then show ?thesis by (simp add: parse_ipmi_payload_def)
next
  case Waits
  then show ?thesis by (simp add: parse_ipmi_payload_def)
qed

lemma got_sol_queue:
  "queue_kept s (snd (got_sol E payload s)) \<or> last_payload_type s = Some 1"
  by (simp add: got_sol_def bind_result_def)

lemma send_payload_idle:
  assumes "lastpayload s = None"
  shows "pendingpayloads (snd (send_payload E (Some p) pt retry d s)) = pendingpayloads s"
    and "lastpayload (snd (send_payload E (Some p) pt retry d s)) = (if retry then Some p else None)"
  using assms
  by (cases d; simp add: send_payload_def xmit_packet_def Let_def split: option.split)+

lemma parse_ipmi_payload_sends_head:
  assumes "reply_mismatch payload s = Return False"
    and "build_response payload = Return r"
    and "pendingpayloads s = (p, pt, retry) # rest"
  shows "pendingpayloads (snd (parse_ipmi_payload E payload s)) = rest
       \<and> lastpayload (snd (parse_ipmi_payload E payload s)) = (if retry then Some p else None)"
proof -
  define s1 where "s1 = (complete_request s)\<lparr>timeout := fresh_timeout E, pendingpayloads := rest\<rparr>"
  have idle: "lastpayload s1 = None" and q: "pendingpayloads s1 = rest"
    by (simp_all add: s1_def complete_request_def Let_def split: option.split)
  have pend: "pendingpayloads (complete_request s) = (p, pt, retry) # rest"
    using assms(3) by (simp add: complete_request_def Let_def split: option.split)
  have parse: "parse_ipmi_payload E payload s =
      bind_result (send_payload E (Some p) pt retry None s1)
        (\<lambda>_ s. bind_result
            (call_with_optional_args (ipmicallback s) r (ipmicallbackargs s) (s\<lparr>incommand := False\<rparr>))
            (\<lambda>_ s. (Return None, s)))"
    using assms(1,2) pend
    by (simp add: parse_ipmi_payload_def send_next_pending_def s1_def Let_def)
  obtain x s2 where sp: "send_payload E (Some p) pt retry None s1 = (x, s2)"
    by (cases "send_payload E (Some p) pt retry None s1")
  from send_payload_idle [OF idle, of E p pt retry None] sp q
  have s2: "pendingpayloads s2 = rest" "lastpayload s2 = (if retry then Some p else None)"
    by simp_all
  show ?thesis
    unfolding parse sp using s2
    by (cases x)
       (simp_all add: bind_result_def call_with_optional_args_def
          split: option.split callback.split)
qed

lemma onlogon_queue [simp]:
  "queue_kept s0 (snd (onlogon r s)) = queue_kept s0 s"
  by (simp add: onlogon_def split: prod.split)

lemma send_rakp1_queue:
  "queue_kept s0 s \<Longrightarrow> queue_kept s0 (snd (send_rakp1 E s))"
  by (simp add: send_rakp1_def Let_def send_payload_queue)

lemma send_rakp3_queue:
  "queue_kept s0 s \<Longrightarrow> queue_kept s0 (snd (send_rakp3 E s))"
  by (simp add: send_rakp3_def Let_def send_payload_queue)

lemma req_priv_level_queue:
  "queue_kept s0 s \<Longrightarrow> queue_kept s0 (snd (req_priv_level E s))"
  by (simp add: req_priv_level_def send_ipmi_net_payload_queue)

lemma got_rmcp_response_queue:
  "queue_kept s0 s \<Longrightarrow> queue_kept s0 (snd (got_rmcp_response E data s))"
  unfolding got_rmcp_response_def Let_def
  by (auto intro!: queue_kept_bind send_rakp1_queue split: option.split)

lemma got_rakp2_queue:
  "queue_kept s0 s \<Longrightarrow> queue_kept s0 (snd (got_rakp2 E data s))"
  unfolding got_rakp2_def Let_def
  by (auto intro!: queue_kept_bind send_rakp3_queue split: option.split)

lemma got_rakp4_queue:
  "queue_kept s0 s \<Longrightarrow> queue_kept s0 (snd (got_rakp4 E data s))"
  unfolding got_rakp4_def Let_def
  by (auto intro!: queue_kept_bind req_priv_level_queue relog_queue split: option.split)

lemma parse_ipmi_payload_queue_from:
  "queue_kept s0 s \<Longrightarrow>
     queue_kept s0 (snd (parse_ipmi_payload E payload s)) \<or> reply_mismatch payload s = Return False"
proof (cases "reply_mismatch payload s")
  case (Return b)
  assume "queue_kept s0 s"
  with Return show ?thesis by (cases b) (simp_all add: parse_ipmi_payload_mismatch)
next
  case (Raise e)
  assume "queue_kept s0 s"
  with Raise show ?thesis by (simp add: parse_ipmi_payload_def)
next
  case Waits
  assume "queue_kept s0 s"
  with Waits show ?thesis by (simp add: parse_ipmi_payload_def)
qed

lemma got_sol_queue_from:
  "queue_kept s0 s \<Longrightarrow>
     queue_kept s0 (snd (got_sol E payload s)) \<or> last_payload_type s = Some 1"
  by (simp add: got_sol_def bind_result_def)

lemma reply_mismatch_update [simp]:
  "reply_mismatch payload (remseqnumber_update f s) = reply_mismatch payload s"
  "reply_mismatch payload (remsequencenumber_update g s) = reply_mismatch payload s"
  "reply_mismatch payload (sockaddr_update h s) = reply_mismatch payload s"
  by (simp_all add: reply_mismatch_def)

lemma handle_ipmi2_packet_queue:
  assumes "queue_kept s0 s"
  shows "queue_kept s0 (snd (handle_ipmi2_packet E rawdata s))
       \<or> (\<exists>payload. reply_mismatch payload s = Return False)
       \<or> last_payload_type s = Some 1"
proof (cases "(\<exists>payload. reply_mismatch payload s = Return False) \<or> last_payload_type s = Some 1")
  case True
  then show ?thesis by blast
next
  case False
  have p: "queue_kept s0 (snd (bind_result (parse_ipmi_payload E payload (s\<lparr>remseqnumber := x\<rparr>))
                                 (\<lambda>_ s. (Return None, s))))" for payload x
    using parse_ipmi_payload_queue_from [of s0 "s\<lparr>remseqnumber := x\<rparr>" E payload] assms False
    by (simp add: snd_bind_result_const)
  have g: "queue_kept s0 (snd (got_sol E payload (s\<lparr>remseqnumber := x\<rparr>)))" for payload x
    using got_sol_queue_from [of s0 "s\<lparr>remseqnumber := x\<rparr>" E payload] assms False by simp
  have "queue_kept s0 (snd (handle_ipmi2_packet E rawdata s))"
    by (simp add: handle_ipmi2_packet_def Let_def assms p g
          got_rmcp_response_queue got_rakp2_queue got_rakp4_queue
          split: option.split result.split)
  then show ?thesis by simp
qed

lemma ipmi15_checks_queue:
  assumes "queue_kept s0 s"
  shows "queue_kept s0 (snd (ipmi15_checks E data new s))
       \<or> (\<exists>payload. reply_mismatch payload s = Return False)"
proof (cases "\<exists>payload. reply_mismatch payload s = Return False")
  case True
  then show ?thesis by blast
next
  case False
  have p: "queue_kept s0 (snd (bind_result (parse_ipmi_payload E payload s)
                                 (\<lambda>_ s. (Return None, s))))" for payload
    using parse_ipmi_payload_queue_from [OF assms, of E payload] False
    by (simp add: snd_bind_result_const)
  have "queue_kept s0 (snd (ipmi15_checks E data new s))"
    by (simp add: ipmi15_checks_def Let_def assms p split: option.split result.split)
  then show ?thesis by simp
qed

lemma handle_ipmi_packet_queue:
  "queue_kept s (snd (handle_ipmi_packet E data peer s))
   \<or> (\<exists>payload. reply_mismatch payload s = Return False)
   \<or> last_payload_type s = Some 1"
proof (cases "(\<exists>payload. reply_mismatch payload s = Return False) \<or> last_payload_type s = Some 1")
  case True
  then show ?thesis by blast
next
  case False
  have two: "queue_kept s (snd (handle_ipmi2_packet E data t))"
    if "queue_kept s t" "\<And>payload. reply_mismatch payload t = reply_mismatch payload s"
       "last_payload_type t = last_payload_type s" for t
    using handle_ipmi2_packet_queue [OF that(1), of E data] that(2,3) False by simp
  have one: "queue_kept s (snd (ipmi15_checks E data new t))"
    if "queue_kept s t" "\<And>payload. reply_mismatch payload t = reply_mismatch payload s" for t new
    using ipmi15_checks_queue [OF that(1), of E data new] that(2) False by simp
  have "queue_kept s (snd (handle_ipmi_packet E data peer s))"
    by (simp add: handle_ipmi_packet_def Let_def snd_bind_result_const two one
          split: option.split)
  then show ?thesis by simp
qed

text \<open>
  C7. The retried request in flight is the one attribute \<open>lastpayload\<close>, and the
  session's place in the waiting set is its one entry in a dictionary keyed by the
  session, so there is at most one of each. While \<open>lastpayload\<close> is set,
  \<open>send_payload\<close> with a new payload only appends it to the pending queue: nothing
  is sent and nothing else changes. Nothing is taken from the queue by a timer
  expiry or by a new command; an IPMI reply takes from it only when it matches the
  outstanding request, a SOL payload only when SOL was the last transmission, and
  no other inbound datagram does; and then the head of the queue is what goes out,
  after \<open>lastpayload\<close> was cleared.
\<close>

theorem one_request_in_flight:
  assumes "lastpayload s = Some q"
  shows "send_payload E (Some p) pt retry d s =
           (Return (), s\<lparr>pendingpayloads := pendingpayloads s @ [(p, pt, retry)]\<rparr>)
       \<and> queue_kept s (snd (timedout E s))
       \<and> queue_kept s (snd (raw_command E netfn command data retry' cb args d' s))
       \<and> (queue_kept s (snd (parse_ipmi_payload E payload s))
            \<or> reply_mismatch payload s = Return False)
       \<and> (queue_kept s (snd (got_sol E solpayload s)) \<or> last_payload_type s = Some 1)
       \<and> (queue_kept s (snd (handle_ipmi_packet E datagram peer s))
            \<or> (\<exists>reply. reply_mismatch reply s = Return False)
            \<or> last_payload_type s = Some 1)
       \<and> (reply_mismatch payload s = Return False \<and> build_response payload = Return r
            \<and> pendingpayloads s = (p', pt', retry'') # rest \<longrightarrow>
              pendingpayloads (snd (parse_ipmi_payload E payload s)) = rest
              \<and> lastpayload (snd (parse_ipmi_payload E payload s)) =
                  (if retry'' then Some p' else None))"
proof -
  have "send_payload E (Some p) pt retry d s =
           (Return (), s\<lparr>pendingpayloads := pendingpayloads s @ [(p, pt, retry)]\<rparr>)"
    using assms by (simp add: send_payload_def)
  moreover have "queue_kept s (snd (timedout E s))"
    by (rule timedout_queue) simp
  moreover have "queue_kept s (snd (raw_command E netfn command data retry' cb args d' s))"
    by (rule raw_command_queue) simp
  ultimately show ?thesis
    using parse_ipmi_payload_queue [of s E payload] got_sol_queue [of s E solpayload]
      handle_ipmi_packet_queue [of s E datagram peer]
      parse_ipmi_payload_sends_head [of payload s r p' pt' retry'' rest E]
    by blast
qed

theorem one_request_in_flight_witness:
  "lastpayload queued_session = Some [32, 24, 200, 129, 0, 1, 126]
   \<and> send_payload sample_env (Some [1]) (Some 0) True None queued_session =
       (Return (),
        queued_session\<lparr>pendingpayloads := pendingpayloads queued_session @ [([1], Some 0, True)]\<rparr>)
   \<and> queue_kept queued_session (snd (timedout sample_env queued_session))
   \<and> reply_mismatch [129, 28, 99, 32, 0, 1, 0, 223] queued_session = Return False
   \<and> build_response [129, 28, 99, 32, 0, 1, 0, 223] = Return (Rsp_data 7 1 0 [])
   \<and> pendingpayloads queued_session = [([32, 0, 224, 129, 0, 2, 125], Some 0, True)]
   \<and> pendingpayloads
       (snd (parse_ipmi_payload sample_env [129, 28, 99, 32, 0, 1, 0, 223] queued_session)) = []
   \<and> lastpayload
       (snd (parse_ipmi_payload sample_env [129, 28, 99, 32, 0, 1, 0, 223] queued_session)) =
       Some [32, 0, 224, 129, 0, 2, 125]"
  using one_request_in_flight
    [where s = queued_session and q = "[32, 24, 200, 129, 0, 1, 126]" and E = sample_env
       and p = "[1]" and pt = "Some 0" and retry = True and d = None
       and payload = "[129, 28, 99, 32, 0, 1, 0, 223]" and r = "Rsp_data 7 1 0 []"
       and p' = "[32, 0, 224, 129, 0, 2, 125]" and pt' = "Some 0" and retry'' = True
       and rest = "[]"]
  by (simp add: queued_session_def stalled_session_def idle_session_def reply_mismatch_def
        build_response_def)

subsection \<open>Sequence numbers of requests and the taboo map\<close>

lemma taboo_loop_not_taboo:
  "tabooseq s (netfn, command, seqlun s) = None \<Longrightarrow>
     taboo_loop n netfn command s = (Return (), s)"
  by (cases n) simp_all

lemma taboo_loop_key_error:
  "tabooseq s (netfn, command, seqlun s) = Some v \<Longrightarrow> v \<noteq> 0 \<Longrightarrow>
   tabooseq s (expectednetfn s, command, seqlun s) = None \<Longrightarrow> n \<noteq> 0 \<Longrightarrow>
     taboo_loop n netfn command s = (Raise KeyError, s)"
  by (cases n) simp_all

lemma make_ipmi_payload_not_taboo:
  assumes "tabooseq s (netfn, command, seqlun s) = None"
  shows "make_ipmi_payload netfn command data s =
           (Return ([32, push_bit 2 netfn, checksum [32, push_bit 2 netfn],
                     rqaddr s, seqlun s, command] @ data @
                    [checksum ([rqaddr s, seqlun s, command] @ data)]),
            s\<lparr>expectedcmd := command, expectednetfn := netfn + 1\<rparr>)"
  using assms by (simp add: make_ipmi_payload_def taboo_loop_not_taboo bind_result_def Let_def)

lemma complete_request_records_taboo:
  "hasretried s = Some h \<Longrightarrow> h \<noteq> 0 \<Longrightarrow>
     tabooseq (complete_request s) =
       (tabooseq s)((expectednetfn s, expectedcmd s, seqlun s) \<mapsto> 16)"
  by (simp add: complete_request_def Let_def)

text \<open>
  C4. The claim: after a reply is matched for a retried command, the triple
  (request netfn, command, seqlun) is taboo with counter 16, and a later payload for
  the same netfn and command at that seqlun moves on by 4. The code at a concrete
  input: the retried Get Device ID request (netfn 6, command 1, seqlun 0) is
  answered. The entry is stored under \<open>expectednetfn\<close>, the response's netfn 7;
  the request's triple (6, 1, 0) has no entry, so the next payload for netfn 6 and
  command 1 at seqlun 0 uses seqlun 0 again. A request with netfn 7 and command 1
  finds the entry but decrements the one of netfn 8, a \<open>KeyError\<close>.
\<close>

theorem taboo_recorded_under_response_netfn:
  "tabooseq (snd (parse_ipmi_payload sample_env [129, 28, 99, 32, 0, 1, 0, 223] retried_session))
     (7, 1, 0) = Some 16
   \<and> tabooseq (snd (parse_ipmi_payload sample_env [129, 28, 99, 32, 0, 1, 0, 223] retried_session))
       (6, 1, 0) = None
   \<and> seqlun (snd (parse_ipmi_payload sample_env [129, 28, 99, 32, 0, 1, 0, 223] retried_session))
       = 4
   \<and> fst (make_ipmi_payload 6 1 []
            ((snd (parse_ipmi_payload sample_env [129, 28, 99, 32, 0, 1, 0, 223] retried_session))
               \<lparr>seqlun := 0\<rparr>)) = Return [32, 24, 200, 129, 0, 1, 126]
   \<and> fst (make_ipmi_payload 7 1 []
            ((snd (parse_ipmi_payload sample_env [129, 28, 99, 32, 0, 1, 0, 223] retried_session))
               \<lparr>seqlun := 0\<rparr>)) = Raise KeyError"
proof -
  define s1 where
    "s1 = snd (parse_ipmi_payload sample_env [129, 28, 99, 32, 0, 1, 0, 223] retried_session)"
  have tab: "tabooseq s1 = [(7, 1, 0) \<mapsto> 16]" and seq: "seqlun s1 = 4" and rq: "rqaddr s1 = 129"
    by (simp_all add: s1_def parse_ipmi_payload_def reply_mismatch_def complete_request_def
          build_response_def send_next_pending_def call_with_optional_args_def bind_result_def
          Let_def retried_session_def stalled_session_def idle_session_def)
  have a: "tabooseq s1 (7, 1, 0) = Some 16" and b: "tabooseq s1 (6, 1, 0) = None"
    by (simp_all add: tab)
  have c: "fst (make_ipmi_payload 6 1 [] (s1\<lparr>seqlun := 0\<rparr>)) = Return [32, 24, 200, 129, 0, 1, 126]"
    by (simp add: make_ipmi_payload_not_taboo tab rq checksum_def)
  have d: "fst (make_ipmi_payload 7 1 [] (s1\<lparr>seqlun := 0\<rparr>)) = Raise KeyError"
    by (simp add: make_ipmi_payload_def bind_result_def tab
          taboo_loop_key_error [where v = 16])
  from a b c d seq show ?thesis unfolding s1_def by simp
qed

subsection \<open>The retry timer gives up\<close>

text \<open>
  When the timeout value, once increased by one second, exceeds 5, \<open>_timedout\<close>
  calls the callback with \<open>{'error': 'timeout'}\<close> and clears \<open>incommand\<close> and
  \<open>nowait\<close>; \<open>lastpayload\<close> stays.
\<close>

lemma timedout_abandon_leaves_lastpayload:
  assumes "lastpayload s = Some p" and "p \<noteq> []" and "4 < timeout s"
    and "ipmicallback s = Some cb" and "cb \<noteq> False_callback"
  shows "timedout E s =
           (Return (), s\<lparr>nowait := False, timeout := timeout s + 1, incommand := False,
                          trace := trace s @ [Called cb (Rsp_error ''timeout'') (ipmicallbackargs s)]\<rparr>)"
  using assms
  by (cases cb) (simp_all add: timedout_def call_with_optional_args_def bind_result_def Let_def)

text \<open>
  C2. The claim: when the retry timer gives up, the callback gets the timeout
  error and the in-flight state is cleared, so that a command submitted afterwards
  can be sent. The code at a concrete input: the timer of the stalled session
  expires at 4.6 seconds. The callback is called and \<open>incommand\<close> is cleared, but
  \<open>lastpayload\<close> still holds the abandoned request; the next \<open>raw_command\<close> is
  accepted, and its payload is appended to the pending queue: nothing is sent and
  the session is not in the waiting set.
\<close>

theorem timeout_leaves_request_outstanding:
  "timedout sample_env stalled_session =
     (Return (),
      stalled_session\<lparr>timeout := 5.6, incommand := False,
                       trace := [Called (User_callback 0) (Rsp_error ''timeout'') None]\<rparr>)
   \<and> lastpayload (snd (timedout sample_env stalled_session)) =
       Some [32, 24, 200, 129, 0, 1, 126]
   \<and> fst (raw_command sample_env 6 2 [] True (Some (User_callback 1)) None None
            (snd (timedout sample_env stalled_session))) = Return ()
   \<and> trace (snd (raw_command sample_env 6 2 [] True (Some (User_callback 1)) None None
                   (snd (timedout sample_env stalled_session)))) =
       [Called (User_callback 0) (Rsp_error ''timeout'') None]
   \<and> pendingpayloads (snd (raw_command sample_env 6 2 [] True (Some (User_callback 1)) None None
                             (snd (timedout sample_env stalled_session)))) =
       [([32, 24, 200, 129, 0, 2, 125], Some 0, True)]
   \<and> waiting_timeout (snd (raw_command sample_env 6 2 [] True (Some (User_callback 1)) None None
                             (snd (timedout sample_env stalled_session)))) = None"
proof -
  have t: "timedout sample_env stalled_session =
     (Return (),
      stalled_session\<lparr>timeout := 5.6, incommand := False,
                       trace := [Called (User_callback 0) (Rsp_error ''timeout'') None]\<rparr>)"
    by (simp add: timedout_def call_with_optional_args_def bind_result_def Let_def
          stalled_session_def idle_session_def)
  show ?thesis
    unfolding t
    by (simp add: raw_command_def send_ipmi_net_payload_def make_ipmi_payload_not_taboo
          send_payload_def bind_result_def checksum_def Let_def sample_env_def
          stalled_session_def idle_session_def)
qed

subsection \<open>A session whose login failed\<close>

lemma onlogon_sessioncontext:
  "sessioncontext (snd (onlogon r s)) = sessioncontext s"
  by (simp add: onlogon_def split: prod.split)

lemma got_rakp2_wrong_hash_fails:
  assumes "sessioncontext s = Some ''EXPECTINGRAKP2''"
    and "40 \<le> length data" and "data ! 0 = rmcptag s" and "data ! 1 = 0"
    and "unpack_le32 (slice 4 8 data) = Some (localsid s)"
    and "drop 40 data \<noteq>
           hmac_sha1 E (password s)
             (pack_le32 (localsid s) @ pack_le32 (pendingsessionid s) @ randombytes s @
              slice 8 24 data @ slice 24 40 data @ [privlevel s, length (userid s)] @ userid s)"
  shows "sessioncontext (snd (got_rakp2 E data s)) = Some ''FAILED''"
proof -
  have f: "sessioncontext (snd (bind_result (onlogon r t) (\<lambda>_ s. (x, s)))) = sessioncontext t"
    for r t and x :: "int option result"
    by (cases "onlogon r t"; cases "fst (onlogon r t)")
       (use onlogon_sessioncontext [of r t] in \<open>simp_all add: bind_result_def\<close>)
  have ne: "data \<noteq> []" using assms(2) by auto
  show ?thesis
    using assms ne by (simp add: got_rakp2_def Let_def slice_def f)
qed




subsection \<open>Keepalive\<close>

lemma taboo_loop_shape:
  "\<exists>tb sl. snd (taboo_loop n netfn command s) = s\<lparr>tabooseq := tb, seqlun := sl\<rparr>"
proof (induction n netfn command s rule: taboo_loop.induct)
  case (1 netfn command s)
  have "s = s\<lparr>tabooseq := tabooseq s, seqlun := seqlun s\<rparr>" by simp
  then show ?case by (metis snd_conv taboo_loop.simps(1))
next
  case (2 seqincrement netfn command s)
  have same: "\<exists>tb sl. s = s\<lparr>tabooseq := tb, seqlun := sl\<rparr>"
  proof -
    have "s = s\<lparr>tabooseq := tabooseq s, seqlun := seqlun s\<rparr>" by simp
    then show ?thesis by blast
  qed
  show ?case
  proof (cases "tabooseq s (netfn, command, seqlun s)")
    case None
    with same show ?thesis by simp
  next
    case (Some v)
    show ?thesis
    proof (cases "v = 0")
      case True
      with Some same show ?thesis by simp
    next
      case False
      show ?thesis
      proof (cases "tabooseq s (expectednetfn s, command, seqlun s)")
        case None
        with Some False same show ?thesis by simp
      next
        case (Some w)
        from "2.IH" [OF \<open>tabooseq s (netfn, command, seqlun s) = Some v\<close> False Some]
        obtain tb sl where
          "snd (taboo_loop seqincrement netfn command
                 (s\<lparr>tabooseq := (tabooseq s)((expectednetfn s, command, seqlun s) \<mapsto> w - 1),
                    seqlun := (seqlun s + 4) AND 255\<rparr>)) =
           s\<lparr>tabooseq := (tabooseq s)((expectednetfn s, command, seqlun s) \<mapsto> w - 1),
              seqlun := (seqlun s + 4) AND 255\<rparr>\<lparr>tabooseq := tb, seqlun := sl\<rparr>"
          by blast
        then have "snd (taboo_loop (Suc seqincrement) netfn command s) =
                     s\<lparr>tabooseq := tb, seqlun := sl\<rparr>"
          using \<open>tabooseq s (netfn, command, seqlun s) = Some v\<close> False Some by simp
        then show ?thesis by blast
      qed
    qed
  qed
qed

lemma taboo_loop_never_waits:
  "fst (taboo_loop n netfn command s) \<noteq> Waits"
  by (induction n netfn command s rule: taboo_loop.induct) (simp_all split: option.split)

lemma send_payload_idle_retry:
  assumes "lastpayload s = None"
    and "fst (send_payload E (Some p) (Some t) True None s) = Return ()"
  shows "lastpayload (snd (send_payload E (Some p) (Some t) True None s)) = Some p
       \<and> trace (snd (send_payload E (Some p) (Some t) True None s)) =
           trace s @ [Sendto p (Some t)]
       \<and> waiting_timeout (snd (send_payload E (Some p) (Some t) True None s)) =
           Some (timeout s + monotonic_time E)"
proof (cases "frame_error E (Some p) (Some t)
                (s\<lparr>lastpayload := Some p, last_payload_type := Some t\<rparr>)")
  case None
  with assms(1) show ?thesis
    by (simp add: send_payload_def xmit_packet_def Let_def)
next
  case (Some e)
  with assms show ?thesis
    by (simp add: send_payload_def Let_def)
qed

lemma send_payload_result:
  "fst (send_payload E p pt retry None s) \<noteq> Waits"
  by (cases p; cases "lastpayload s")
     (simp_all add: send_payload_def xmit_packet_def Let_def split: option.split)

lemma raw_command_issues:
  assumes "\<not> incommand s" and "lastpayload s = None"
    and "fst (raw_command E netfn command data True None args None s) = Waits"
  shows "\<exists>sl. lastpayload (snd (raw_command E netfn command data True None args None s)) =
               Some ([32, push_bit 2 netfn, checksum [32, push_bit 2 netfn],
                      rqaddr s, sl, command] @ data @
                     [checksum ([rqaddr s, sl, command] @ data)])
            \<and> trace (snd (raw_command E netfn command data True None args None s)) =
               trace s @ [Sendto ([32, push_bit 2 netfn, checksum [32, push_bit 2 netfn],
                                   rqaddr s, sl, command] @ data @
                                  [checksum ([rqaddr s, sl, command] @ data)])
                            (Some (payload_type_ipmi E))]
            \<and> waiting_timeout (snd (raw_command E netfn command data True None args None s)) =
               Some (timeout s + monotonic_time E)"
proof -
  define s0 where "s0 = s\<lparr>incommand := True, ipmicallbackargs := args, lastresponse := None,
                           ipmicallback := Some Generic_callback,
                           expectedcmd := command, expectednetfn := netfn + 1\<rparr>"
  obtain r1 s1 where tl: "taboo_loop 7 netfn command s0 = (r1, s1)"
    by (cases "taboo_loop 7 netfn command s0")
  from taboo_loop_shape [of 7 netfn command s0] tl
  obtain tb sl where s1: "s1 = s0\<lparr>tabooseq := tb, seqlun := sl\<rparr>" by auto
  define p where "p = [32, push_bit 2 netfn, checksum [32, push_bit 2 netfn],
                      rqaddr s, sl, command] @ data @
                     [checksum ([rqaddr s, sl, command] @ data)]"
  have idle: "lastpayload s1 = None" and tm: "timeout s1 = timeout s" and tr: "trace s1 = trace s"
    using assms(2) by (simp_all add: s1 s0_def)
  have rc: "raw_command E netfn command data True None args None s =
      bind_result
        (bind_result
           (bind_result (r1, s1)
              (\<lambda>_ s. (Return ([32, push_bit 2 netfn, checksum [32, push_bit 2 netfn],
                                rqaddr s, seqlun s, command] @ data @
                               [checksum ([rqaddr s, seqlun s, command] @ data)]), s)))
           (\<lambda>ipmipayload s.
              send_payload E (Some ipmipayload) (Some (payload_type_ipmi E)) True None s))
        (\<lambda>_ s. (Waits, s))"
    using assms(1) tl
    by (simp add: raw_command_def send_ipmi_net_payload_def make_ipmi_payload_def Let_def s0_def)
  have nw: "r1 \<noteq> Waits"
    using taboo_loop_never_waits [of 7 netfn command s0] tl by simp
  show ?thesis
  proof (cases r1)
    case (Return u)
    have rc2: "raw_command E netfn command data True None args None s =
        bind_result (send_payload E (Some p) (Some (payload_type_ipmi E)) True None s1)
          (\<lambda>_ s. (Waits, s))"
      unfolding rc Return by (simp add: bind_result_def p_def s1 s0_def)
    obtain x s2 where sp: "send_payload E (Some p) (Some (payload_type_ipmi E)) True None s1 = (x, s2)"
      by (cases "send_payload E (Some p) (Some (payload_type_ipmi E)) True None s1")
    have x: "x = Return ()"
    proof (cases x)
      case (Return v) then show ?thesis by simp
    next
      case (Raise e)
      with assms(3) rc2 sp show ?thesis by (simp add: bind_result_def)
    next
      case Waits
      with send_payload_result [of E "Some p" "Some (payload_type_ipmi E)" True s1] sp
      show ?thesis by simp
    qed
    from send_payload_idle_retry [OF idle, of E p "payload_type_ipmi E"] sp x
    have "lastpayload s2 = Some p"
      "trace s2 = trace s1 @ [Sendto p (Some (payload_type_ipmi E))]"
      "waiting_timeout s2 = Some (timeout s1 + monotonic_time E)"
      by simp_all
    then have "lastpayload (snd (raw_command E netfn command data True None args None s)) = Some p
       \<and> trace (snd (raw_command E netfn command data True None args None s)) =
           trace s @ [Sendto p (Some (payload_type_ipmi E))]
       \<and> waiting_timeout (snd (raw_command E netfn command data True None args None s)) =
           Some (timeout s + monotonic_time E)"
      unfolding rc2 sp x by (simp add: bind_result_def tm tr)
    then show ?thesis unfolding p_def by blast
  next
    case (Raise e)
    with assms(3) rc show ?thesis by (simp add: bind_result_def)
  next
    case Waits
    with nw show ?thesis by simp
  qed
qed

lemma raw_command_queued:
  assumes "\<not> incommand s" and "lastpayload s = Some q"
    and "fst (raw_command E netfn command data retry None args None s) = Waits"
  shows "\<exists>p. pendingpayloads (snd (raw_command E netfn command data retry None args None s)) =
               pendingpayloads s @ [(p, Some (payload_type_ipmi E), retry)]
            \<and> trace (snd (raw_command E netfn command data retry None args None s)) = trace s"
proof -
  define s0 where "s0 = s\<lparr>incommand := True, ipmicallbackargs := args, lastresponse := None,
                           ipmicallback := Some Generic_callback,
                           expectedcmd := command, expectednetfn := netfn + 1\<rparr>"
  obtain r1 s1 where tl: "taboo_loop 7 netfn command s0 = (r1, s1)"
    by (cases "taboo_loop 7 netfn command s0")
  from taboo_loop_shape [of 7 netfn command s0] tl
  obtain tb sl where s1: "s1 = s0\<lparr>tabooseq := tb, seqlun := sl\<rparr>" by auto
  have busy: "lastpayload s1 = Some q" and pp: "pendingpayloads s1 = pendingpayloads s"
    and tr: "trace s1 = trace s"
    using assms(2) by (simp_all add: s1 s0_def)
  have rc: "raw_command E netfn command data retry None args None s =
      bind_result
        (bind_result
           (bind_result (r1, s1)
              (\<lambda>_ s. (Return ([32, push_bit 2 netfn, checksum [32, push_bit 2 netfn],
                                rqaddr s, seqlun s, command] @ data @
                               [checksum ([rqaddr s, seqlun s, command] @ data)]), s)))
           (\<lambda>ipmipayload s.
              send_payload E (Some ipmipayload) (Some (payload_type_ipmi E)) retry None s))
        (\<lambda>_ s. (Waits, s))"
    using assms(1) tl
    by (simp add: raw_command_def send_ipmi_net_payload_def make_ipmi_payload_def Let_def s0_def)
  have nw: "r1 \<noteq> Waits"
    using taboo_loop_never_waits [of 7 netfn command s0] tl by simp
  show ?thesis
  proof (cases r1)
    case (Return u)
    show ?thesis
      unfolding rc Return using busy pp tr
      by (simp add: bind_result_def send_payload_def)
  next
    case (Raise e)
    with assms(3) rc show ?thesis by (simp add: bind_result_def)
  next
    case Waits
    with nw show ?thesis by simp
  qed
qed

text \<open>
  C3, as amended. For a session of the keepalive set whose deadline has passed: if
  it is in a command, no request is made; otherwise \<open>_keepalive\<close> calls
  \<open>raw_command(netfn=6, command=1)\<close>, the Get Device ID request, with the default
  \<open>retry=True\<close>. When the call gets as far as waiting for its response, the
  request has become \<open>lastpayload\<close>, gone out and put the session into the waiting
  set (no request was outstanding), or it stands in the pending queue marked for
  retry (one was).
\<close>

theorem keepalive_issues_get_device_id:
  assumes "keepalive_timeout s = Some t" and "t < monotonic_time E"
  shows "(incommand s \<longrightarrow>
            wait_for_rsp_keepalive E s =
              (Return (), s\<lparr>keepalive_timeout := Some (25 + random_random E * 4.9)\<rparr>))
       \<and> (\<not> incommand s \<longrightarrow>
            wait_for_rsp_keepalive E s =
              raw_command E 6 1 [] True None None None
                (s\<lparr>keepalive_timeout := Some (25 + random_random E * 4.9)\<rparr>))
       \<and> (\<not> incommand s \<and> lastpayload s = None \<and> fst (wait_for_rsp_keepalive E s) = Waits \<longrightarrow>
            (\<exists>sl. lastpayload (snd (wait_for_rsp_keepalive E s)) =
                     Some [32, 24, 200, rqaddr s, sl, 1, checksum [rqaddr s, sl, 1]]
                 \<and> trace (snd (wait_for_rsp_keepalive E s)) =
                     trace s @ [Sendto [32, 24, 200, rqaddr s, sl, 1, checksum [rqaddr s, sl, 1]]
                                  (Some (payload_type_ipmi E))]
                 \<and> waiting_timeout (snd (wait_for_rsp_keepalive E s)) =
                     Some (timeout s + monotonic_time E)))
       \<and> (\<not> incommand s \<and> lastpayload s \<noteq> None \<and> fst (wait_for_rsp_keepalive E s) = Waits \<longrightarrow>
            (\<exists>p. pendingpayloads (snd (wait_for_rsp_keepalive E s)) =
                    pendingpayloads s @ [(p, Some (payload_type_ipmi E), True)]
                 \<and> trace (snd (wait_for_rsp_keepalive E s)) = trace s))"
proof -
  define s' where "s' = s\<lparr>keepalive_timeout := Some (25 + random_random E * 4.9)\<rparr>"
  have busy: "wait_for_rsp_keepalive E s = (Return (), s')" if "incommand s"
    using that assms by (simp add: wait_for_rsp_keepalive_def keepalive_def s'_def)
  have idle: "wait_for_rsp_keepalive E s = raw_command E 6 1 [] True None None None s'"
    if "\<not> incommand s"
    using that assms by (simp add: wait_for_rsp_keepalive_def keepalive_def s'_def)
  have sent: "\<exists>sl. lastpayload (snd (wait_for_rsp_keepalive E s)) =
                     Some [32, 24, 200, rqaddr s, sl, 1, checksum [rqaddr s, sl, 1]]
                 \<and> trace (snd (wait_for_rsp_keepalive E s)) =
                     trace s @ [Sendto [32, 24, 200, rqaddr s, sl, 1, checksum [rqaddr s, sl, 1]]
                                  (Some (payload_type_ipmi E))]
                 \<and> waiting_timeout (snd (wait_for_rsp_keepalive E s)) =
                     Some (timeout s + monotonic_time E)"
    if h: "\<not> incommand s" "lastpayload s = None" "fst (wait_for_rsp_keepalive E s) = Waits"
  proof -
    have "\<not> incommand s'" "lastpayload s' = None"
      "fst (raw_command E 6 1 [] True None None None s') = Waits"
      using h idle by (simp_all add: s'_def)
    from raw_command_issues [OF this]
    show ?thesis unfolding idle [OF h(1)] by (simp add: s'_def checksum_def)
  qed
  have queued: "\<exists>p. pendingpayloads (snd (wait_for_rsp_keepalive E s)) =
                    pendingpayloads s @ [(p, Some (payload_type_ipmi E), True)]
                 \<and> trace (snd (wait_for_rsp_keepalive E s)) = trace s"
    if h: "\<not> incommand s" "lastpayload s \<noteq> None" "fst (wait_for_rsp_keepalive E s) = Waits"
  proof -
    from h(2) obtain q where "lastpayload s = Some q" by auto
    then have "\<not> incommand s'" "lastpayload s' = Some q"
      "fst (raw_command E 6 1 [] True None None None s') = Waits"
      using h idle by (simp_all add: s'_def)
    from raw_command_queued [OF this]
    show ?thesis unfolding idle [OF h(1)] by (simp add: s'_def)
  qed
  from busy idle sent queued show ?thesis unfolding s'_def by blast
qed

theorem keepalive_issues_get_device_id_witness:
  "keepalive_timeout due_session = Some 50
   \<and> 50 < monotonic_time sample_env
   \<and> wait_for_rsp_keepalive sample_env (due_session\<lparr>incommand := True\<rparr>) =
       (Return (), due_session\<lparr>incommand := True, keepalive_timeout := Some 27.45\<rparr>)
   \<and> fst (wait_for_rsp_keepalive sample_env due_session) = Waits
   \<and> (\<exists>sl. trace (snd (wait_for_rsp_keepalive sample_env due_session)) =
            [Sendto [32, 24, 200, 129, sl, 1, checksum [129, sl, 1]] (Some 0)])"
proof -
  note defs = due_session_def idle_session_def sample_env_def
  have h1: "keepalive_timeout due_session = Some 50" by (simp add: defs)
  have h1': "keepalive_timeout (due_session\<lparr>incommand := True\<rparr>) = Some 50" by (simp add: defs)
  have h2: "50 < monotonic_time sample_env" by (simp add: defs)
  have w: "fst (wait_for_rsp_keepalive sample_env due_session) = Waits"
    by (simp add: wait_for_rsp_keepalive_def keepalive_def raw_command_def
          send_ipmi_net_payload_def make_ipmi_payload_not_taboo send_payload_def
          xmit_packet_def frame_error_def payload_type_error_def bind_result_def Let_def defs)
  have idle: "\<not> incommand due_session" "lastpayload due_session = None"
    by (simp_all add: defs)
  from keepalive_issues_get_device_id [OF h1' h2]
  have "wait_for_rsp_keepalive sample_env (due_session\<lparr>incommand := True\<rparr>) =
          (Return (), due_session\<lparr>incommand := True,
             keepalive_timeout := Some (25 + random_random sample_env * 4.9)\<rparr>)"
    by simp
  then have a: "wait_for_rsp_keepalive sample_env (due_session\<lparr>incommand := True\<rparr>) =
       (Return (), due_session\<lparr>incommand := True, keepalive_timeout := Some 27.45\<rparr>)"
    by (simp add: sample_env_def)
  from keepalive_issues_get_device_id [OF h1 h2] idle w
  obtain sl where
    "trace (snd (wait_for_rsp_keepalive sample_env due_session)) =
       trace due_session @
       [Sendto [32, 24, 200, rqaddr due_session, sl, 1, checksum [rqaddr due_session, sl, 1]]
          (Some (payload_type_ipmi sample_env))]"
    by blast
  then have b: "\<exists>sl. trace (snd (wait_for_rsp_keepalive sample_env due_session)) =
            [Sendto [32, 24, 200, 129, sl, 1, checksum [129, sl, 1]] (Some 0)]"
    by (simp add: defs)
  from h1 h2 a w b show ?thesis by simp
qed

text \<open>
  The claim as first stated has the keepalive sent with \<open>retry=False\<close>. On the
  session whose deadline has passed, the keepalive installs the request as
  \<open>lastpayload\<close> and arms the retry timer, which \<open>raw_command\<close> with \<open>retry=False\<close>
  does not do.
\<close>

theorem keepalive_request_is_retried:
  "keepalive_timeout due_session = Some 50
   \<and> incommand due_session = False
   \<and> lastpayload (snd (wait_for_rsp_keepalive sample_env due_session)) =
       Some [32, 24, 200, 129, 0, 1, 126]
   \<and> waiting_timeout (snd (wait_for_rsp_keepalive sample_env due_session)) = Some 100.75
   \<and> lastpayload (snd (raw_command sample_env 6 1 [] False None None None due_session)) = None
   \<and> waiting_timeout (snd (raw_command sample_env 6 1 [] False None None None due_session)) =
       None"
  by (simp add: wait_for_rsp_keepalive_def keepalive_def raw_command_def
        send_ipmi_net_payload_def make_ipmi_payload_not_taboo send_payload_def
        xmit_packet_def frame_error_def payload_type_error_def bind_result_def Let_def
        checksum_def due_session_def idle_session_def sample_env_def)

end
